theory Spec2Isabelle
  imports Complex_Main "HOL-Library.Multiset"
begin

section \<open>The emotion analysis backend (backend/main.py)\<close>

text \<open>
  The module is one HTTP endpoint, \<open>analyze_emotion\<close>, on top of five helpers:
  \<open>get_wordnet_synonyms\<close>, \<open>get_bert_synonyms\<close>, \<open>formulate_search_query\<close>,
  \<open>search_semantic_scholar\<close> and \<open>fetch_academic_articles\<close>, plus
  \<open>get_emotional_intensity\<close>. The models it calls (the emotion classifier, the sentiment
  analyzer, KeyBERT, WordNet, the sentence encoder) and the Semantic Scholar endpoint are
  collaborators: they are fields of the record \<open>env\<close>, and each returns either the
  exception it raised or its value.

  Conventions of the embedding.
  \<^item> Python strings are \<open>string\<close>; a character is a code point below 256, one \<open>char\<close>.
  \<^item> A Python float is a finite double, kept as the rational it denotes (\<open>rat\<close>);
    infinities and NaN are outside the type. \<open>fl\<close> rounds a rational to the nearest
    double, a tie going to the even mantissa. A decimal literal of the source denotes
    \<open>fl\<close> of the decimal; a float subtraction, the true division of two ints and the
    conversion of a rounded decimal back to a float are \<open>fl\<close> of the exact result. A
    comparison of two floats is exact.
  \<^item> An exception is a value of \<open>py_exc\<close>; a function that can raise returns
    \<open>py_exc + 'a\<close>.
  \<^item> What the code does to the outside (encoder calls, network requests, prints) is a list
    of \<open>event\<close>s returned next to the value.
\<close>

subsection \<open>Exceptions and Python built-ins\<close>

datatype py_exc =
    RequestException
  | AttributeError
  | TypeError
  | IndexError
  | ZeroDivisionError
  | CollaboratorError string

text \<open>\<open>xs[0]\<close>: IndexError on the empty list.\<close>

definition py_first :: "'a list \<Rightarrow> py_exc + 'a" where
  "py_first xs = (case xs of [] \<Rightarrow> Inl IndexError | x # _ \<Rightarrow> Inr x)"

text \<open>The nearest integer, a tie going to the even neighbour.\<close>

definition round_half_even :: "rat \<Rightarrow> int" where
  "round_half_even x =
     (let f = \<lfloor>x\<rfloor>; d = x - of_int f
      in if d < 1 / 2 then f
         else if 1 / 2 < d then f + 1
         else if even f then f else f + 1)"

text \<open>
  Rounding to binary64. A positive \<open>a\<close> below 1 lies in \<open>[2^-d, 2^(1-d))\<close> for
  \<open>d = doublings 1022 a\<close>, where the doubles are the multiples of \<open>2^-(52+d)\<close>; below
  \<open>2^-1022\<close> the count stops at 1022 and the spacing is that of the subnormals,
  \<open>2^-1074\<close>. An \<open>a\<close> from 1 on lies in \<open>[2^h, 2^(h+1))\<close> for \<open>h = halvings 1023 a\<close>,
  where the doubles are the multiples of \<open>2^(h-52)\<close>. A result beyond the largest
  double, which Python makes an infinity, is not modelled: no float operation of this
  module leaves the range on finite operands but the subtraction of \<open>is_mixed\<close>, whose
  result is only compared with 0.2, to the same outcome.
\<close>

fun doublings :: "nat \<Rightarrow> rat \<Rightarrow> nat" where
  "doublings 0 a = 0"
| "doublings (Suc n) a = (if 1 \<le> a then 0 else Suc (doublings n (2 * a)))"

fun halvings :: "nat \<Rightarrow> rat \<Rightarrow> nat" where
  "halvings 0 a = 0"
| "halvings (Suc n) a = (if a < 2 then 0 else Suc (halvings n (a / 2)))"

definition fl_abs :: "rat \<Rightarrow> rat" where
  "fl_abs a =
     (if a < 1
      then (let k = 52 + doublings 1022 a in of_int (round_half_even (a * 2 ^ k)) / 2 ^ k)
      else (let h = halvings 1023 a
            in if h \<le> 52
               then of_int (round_half_even (a * 2 ^ (52 - h))) / 2 ^ (52 - h)
               else of_int (round_half_even (a / 2 ^ (h - 52))) * 2 ^ (h - 52)))"

definition fl :: "rat \<Rightarrow> rat" where
  "fl q = (if q = 0 then 0 else sgn q * fl_abs \<bar>q\<bar>)"

text \<open>\<open>a - b\<close> on two floats.\<close>

definition float_sub :: "rat \<Rightarrow> rat \<Rightarrow> rat" where
  "float_sub a b = fl (a - b)"

text \<open>
  \<open>a / b\<close> on two lengths: the true division of ints, correctly rounded;
  ZeroDivisionError when \<open>b = 0\<close>.
\<close>

definition py_truediv :: "nat \<Rightarrow> nat \<Rightarrow> py_exc + rat" where
  "py_truediv a b =
     (if b = 0 then Inl ZeroDivisionError else Inr (fl (of_nat a / of_nat b)))"

text \<open>
  \<open>round(x, n)\<close> on a float, for \<open>n\<close> of 2 or 3: the decimal with \<open>n\<close> places nearest
  to the exact value of \<open>x\<close>, a tie going to the even last digit, converted back to a
  float.
\<close>

definition py_round :: "rat \<Rightarrow> nat \<Rightarrow> rat" where
  "py_round x n = fl (of_int (round_half_even (x * 10 ^ n)) / 10 ^ n)"

text \<open>\<open>sep.join(xs)\<close> with \<open>sep = " "\<close>.\<close>

fun join_space :: "string list \<Rightarrow> string" where
  "join_space [] = []"
| "join_space [x] = x"
| "join_space (x # y # ys) = x @ '' '' @ join_space (y # ys)"

text \<open>\<open>s.replace('_', ' ')\<close>.\<close>

definition replace_underscore :: "string \<Rightarrow> string" where
  "replace_underscore s = map (\<lambda>c. if c = CHR ''_'' then CHR '' '' else c) s"

text \<open>
  \<open>s.lower()\<close> and \<open>s.strip()\<close> on code points below 256: the capitals are \<open>A\<close> to \<open>Z\<close>
  and the Latin-1 capitals 192 to 222 but the sign 215, each 32 below its small letter;
  the whitespace is 9 to 13, 28 to 32, 133 and 160.
\<close>

definition lower_char :: "char \<Rightarrow> char" where
  "lower_char c =
     (let n = (of_char c :: nat)
      in if (65 \<le> n \<and> n \<le> 90) \<or> (192 \<le> n \<and> n \<le> 214) \<or> (216 \<le> n \<and> n \<le> 222)
         then char_of (n + 32) else c)"

definition lower :: "string \<Rightarrow> string" where
  "lower s = map lower_char s"

definition is_space :: "char \<Rightarrow> bool" where
  "is_space c =
     (let n = (of_char c :: nat)
      in (9 \<le> n \<and> n \<le> 13) \<or> (28 \<le> n \<and> n \<le> 32) \<or> n = 133 \<or> n = 160)"

definition strip :: "string \<Rightarrow> string" where
  "strip s = rev (dropWhile is_space (rev (dropWhile is_space s)))"

text \<open>\<open>a in b\<close> on strings: \<open>a\<close> occurs in \<open>b\<close> as a contiguous substring.\<close>

fun is_prefix :: "string \<Rightarrow> string \<Rightarrow> bool" where
  "is_prefix [] ys = True"
| "is_prefix (x # xs) [] = False"
| "is_prefix (x # xs) (y # ys) = (x = y \<and> is_prefix xs ys)"

fun str_contains :: "string \<Rightarrow> string \<Rightarrow> bool" where
  "str_contains a [] = (a = [])"
| "str_contains a (y # ys) = (is_prefix a (y # ys) \<or> str_contains a ys)"

text \<open>
  A Python \<open>set\<close> of strings is kept as the list of its elements in the order they were
  first added. \<open>set_add\<close> is \<open>s.add(x)\<close>, \<open>set_update\<close> is \<open>s.update(xs)\<close> and
  \<open>set_of_list\<close> builds a set from an iteration. The order in which \<open>list(s)\<close> walks the
  set is the runtime's: it follows the hash values of the strings, which CPython draws
  anew for every process, and not the order of insertion. It is the collaborator
  \<open>set_iter\<close> of the environment, and \<open>valid_set_iter\<close> says that it enumerates every
  element once.
\<close>

definition set_add :: "'a \<Rightarrow> 'a list \<Rightarrow> 'a list" where
  "set_add x s = (if x \<in> set s then s else s @ [x])"

definition set_update :: "'a list \<Rightarrow> 'a list \<Rightarrow> 'a list" where
  "set_update s xs = fold set_add xs s"

definition set_of_list :: "'a list \<Rightarrow> 'a list" where
  "set_of_list xs = set_update [] xs"

definition valid_set_iter :: "(string list \<Rightarrow> string list) \<Rightarrow> bool" where
  "valid_set_iter f = (\<forall>xs. distinct xs \<longrightarrow> distinct (f xs) \<and> set (f xs) = set xs)"

text \<open>
  \<open>list(dict.fromkeys(xs))\<close>: a dict keeps its keys in insertion order, and storing under
  a key that is present leaves the key where it is.
\<close>

definition dict_fromkeys :: "'a list \<Rightarrow> 'a list" where
  "dict_fromkeys xs = fold (\<lambda>k d. if k \<in> set d then d else d @ [k]) xs []"

text \<open>\<open>d[k] = v\<close> on a dict kept as its list of items.\<close>

fun dict_set :: "'k \<Rightarrow> 'v \<Rightarrow> ('k \<times> 'v) list \<Rightarrow> ('k \<times> 'v) list" where
  "dict_set k v [] = [(k, v)]"
| "dict_set k v ((k', v') # d) = (if k' = k then (k, v) # d else (k', v') # dict_set k v d)"

text \<open>
  \<open>sorted(xs, key=f, reverse=True)\<close>: descending by key, and stable: entries with equal
  keys keep their order. It is modelled as the insertion sort that puts each entry before
  the later entries of the same or a smaller key.
\<close>

fun insert_desc :: "('a \<Rightarrow> rat) \<Rightarrow> 'a \<Rightarrow> 'a list \<Rightarrow> 'a list" where
  "insert_desc f x [] = [x]"
| "insert_desc f x (y # ys) = (if f y \<le> f x then x # y # ys else y # insert_desc f x ys)"

definition sorted_reverse :: "('a \<Rightarrow> rat) \<Rightarrow> 'a list \<Rightarrow> 'a list" where
  "sorted_reverse f xs = foldr (insert_desc f) xs []"

subsection \<open>Data\<close>

text \<open>
  An entry of a classifier's output, \<open>{'label': ..., 'score': ...}\<close>; the request body
  \<open>AnalysisRequest\<close>, whose \<open>find_sources\<close> is an \<open>Optional[bool]\<close>; a JSON value as
  \<open>response.json()\<close> returns it: a number is an int or a float, an object is the list of
  its items.
\<close>

record label_score =
  label :: string
  score :: rat

record AnalysisRequest =
  request_text :: string
  find_sources :: "bool option"

datatype json =
    JNull
  | JBool bool
  | JInt int
  | JFloat rat
  | JStr string
  | JArr "json list"
  | JObj "(string \<times> json) list"

text \<open>
  What \<open>requests.get\<close> comes back with: an exception of the transport (connection error,
  timeout), or a response with its status code and its body, which is JSON or not.
\<close>

datatype http_body = Not_json | Json json

datatype http_outcome = Transport_failure | Response nat http_body

text \<open>The effects: an encoder call, a network request (URL and parameters), a print.\<close>

datatype event =
    Encode "string list"
  | Http_get string "(string \<times> string) list"
  | Print_synonym_error string py_exc
  | Print_scholar_error py_exc

text \<open>
  The collaborators. \<open>api_key\<close> is \<open>os.getenv("API_KEY")\<close>. \<open>emotion_classifier\<close> and
  \<open>sentiment_analyzer\<close> return the list the pipelines return, of which the code takes
  element 0. \<open>extract_keywords\<close> is the KeyBERT call with its fixed arguments, a list of
  (phrase, relevance) pairs. \<open>synsets word\<close> is, for each synset of \<open>wordnet.synsets(word)\<close>,
  the names of its lemmas. \<open>similarities\<close> is \<open>model.encode\<close> on the keyword followed by
  its candidates, then \<open>pytorch_cos_sim\<close> of the first embedding with the others: row 0
  of the result, one score for each candidate.
\<close>

record env =
  api_key :: "string option"
  emotion_classifier :: "string \<Rightarrow> py_exc + label_score list list"
  sentiment_analyzer :: "string \<Rightarrow> py_exc + label_score list"
  extract_keywords :: "string \<Rightarrow> py_exc + (string \<times> rat) list"
  synsets :: "string \<Rightarrow> py_exc + string list list"
  similarities :: "string list \<Rightarrow> py_exc + rat list"
  http_get :: "string \<Rightarrow> (string \<times> string) list \<Rightarrow> http_outcome"
  set_iter :: "string list \<Rightarrow> string list"

subsection \<open>Synonyms and the search query\<close>

definition get_wordnet_synonyms :: "env \<Rightarrow> string \<Rightarrow> py_exc + string list" where
  "get_wordnet_synonyms E word =
     (case synsets E word of
        Inl e \<Rightarrow> Inl e
      | Inr syns \<Rightarrow> Inr (set_iter E (set_of_list (map replace_underscore (concat syns)))))"

text \<open>
  The list comprehension of \<open>get_bert_synonyms\<close>:
  \<open>[syn for syn, score in zip(wordnet_syns, similarities[0]) if score.item() > 0.6]\<close>.
  The threshold is written as the decimal: the literal's double is the multiple
  5404319552844595 of \<open>2^-53\<close>, just below six tenths, the doubles from one half on are
  multiples of \<open>2^-53\<close>, and no such multiple lies between the two (lemma
  \<open>similarity_threshold_on_doubles\<close>).
\<close>

definition valid_synonyms :: "string list \<Rightarrow> rat list \<Rightarrow> string list" where
  "valid_synonyms wordnet_syns sims =
     map fst (filter (\<lambda>(syn, s). s > 6 / 10) (zip wordnet_syns sims))"

text \<open>
  One round of the loop of \<open>get_bert_synonyms\<close>, on the set of synonyms collected so far
  and the trace so far. The \<open>try\<close> covers the whole round: an exception of WordNet or of
  the encoder is printed and the round adds nothing.
\<close>

definition bert_round :: "env \<Rightarrow> string \<Rightarrow> string list \<times> event list \<Rightarrow> string list \<times> event list" where
  "bert_round E keyword st =
     (case st of (synonyms, tr) \<Rightarrow>
        (case get_wordnet_synonyms E keyword of
           Inl e \<Rightarrow> (synonyms, tr @ [Print_synonym_error keyword e])
         | Inr wordnet_syns \<Rightarrow>
             if wordnet_syns = [] then (synonyms, tr)
             else
               (case similarities E (keyword # wordnet_syns) of
                  Inl e \<Rightarrow>
                    (synonyms, tr @ [Encode (keyword # wordnet_syns), Print_synonym_error keyword e])
                | Inr sims \<Rightarrow>
                    (set_update synonyms (valid_synonyms wordnet_syns sims),
                     tr @ [Encode (keyword # wordnet_syns)]))))"

definition get_bert_synonyms :: "env \<Rightarrow> string list \<Rightarrow> string list \<times> event list" where
  "get_bert_synonyms E keywords =
     (case fold (bert_round E) keywords ([], []) of
        (synonyms, tr) \<Rightarrow> (set_iter E synonyms, tr))"

text \<open>
  \<open>formulate_search_query\<close>; \<open>query_terms\<close> is its local variable of that name, the terms
  before they are joined and cut.
\<close>

definition query_terms :: "env \<Rightarrow> string list \<Rightarrow> string list" where
  "query_terms E keywords =
     (let primary_terms = take 3 keywords;
          expanded_synonyms = fst (get_bert_synonyms E primary_terms)
      in dict_fromkeys (primary_terms @ expanded_synonyms))"

definition formulate_search_query :: "env \<Rightarrow> string list \<Rightarrow> string \<times> event list" where
  "formulate_search_query E keywords =
     (take 300 (join_space (query_terms E keywords)),
      snd (get_bert_synonyms E (take 3 keywords)))"

subsection \<open>The literature search\<close>

text \<open>
  \<open>search_semantic_scholar\<close>. \<open>requests.get\<close> raising, \<open>raise_for_status\<close> on a status from
  400 to 599 and \<open>response.json()\<close> on a body that is not JSON (its JSONDecodeError is a
  \<open>RequestException\<close> since requests 2.27) all raise a \<open>RequestException\<close>, which the
  \<open>except\<close> clause turns into \<open>[]\<close>. \<open>.get("data", [])\<close> on a JSON value that is not an
  object raises AttributeError, which the clause does not catch.
\<close>

definition scholar_url :: string where
  "scholar_url = ''https://api.semanticscholar.org/graph/v1/paper/search''"

definition scholar_params :: "string \<Rightarrow> (string \<times> string) list" where
  "scholar_params query =
     [(''query'', query), (''fields'', ''title,authors,year,url,abstract''), (''limit'', ''10'')]"

definition search_semantic_scholar :: "env \<Rightarrow> string \<Rightarrow> (py_exc + json) \<times> event list" where
  "search_semantic_scholar E query =
     (let request = Http_get scholar_url (scholar_params query);
          caught = (Inr (JArr []), [request, Print_scholar_error RequestException])
      in case http_get E scholar_url (scholar_params query) of
           Transport_failure \<Rightarrow> caught
         | Response status body \<Rightarrow>
             if 400 \<le> status \<and> status < 600 then caught
             else
               (case body of
                  Not_json \<Rightarrow> caught
                | Json (JObj items) \<Rightarrow>
                    (Inr (case map_of items ''data'' of None \<Rightarrow> JArr [] | Some d \<Rightarrow> d), [request])
                | Json _ \<Rightarrow> (Inl AttributeError, [request])))"

definition fetch_academic_articles :: "env \<Rightarrow> string \<Rightarrow> string list \<Rightarrow> (py_exc + json) \<times> event list" where
  "fetch_academic_articles E txt keywords =
     (case formulate_search_query E keywords of
        (query, tr) \<Rightarrow>
          (case search_semantic_scholar E query of
             (res, tr') \<Rightarrow> (res, tr @ tr')))"

subsection \<open>The report\<close>

text \<open>The response of the endpoint, dictionary by dictionary.\<close>

record primary_emotion_entry = label_score +
  intensity :: string

record emotional_complexity_entry =
  is_mixed :: bool
  diversity_score :: rat

record keyword_insights_entry =
  key_phrases :: "string list"
  emotional_triggers :: "string list"

record academic_source =
  title :: json
  authors :: "json list"
  year :: json
  url :: json
  citationCount :: json
  similarity :: rat

record report =
  sentiment :: label_score
  primary_emotion :: primary_emotion_entry
  secondary_emotions :: "label_score list"
  emotional_complexity :: emotional_complexity_entry
  keyword_insights :: keyword_insights_entry
  academic_sources :: "academic_source list"
  full_breakdown :: "(string \<times> rat) list"

text \<open>
  \<open>HTTPException(status_code, detail)\<close>: the two fixed details of the checks before the
  \<open>try\<close>, and \<open>str(e)\<close> of the exception the \<open>try\<close> caught.
\<close>

datatype detail = Invalid_API_key | Invalid_text_input | Str_of py_exc

datatype http_exception = HTTPException nat detail

definition get_emotional_intensity :: "rat \<Rightarrow> string" where
  "get_emotional_intensity s =
     (if s \<ge> fl (9 / 10) then ''very high''
      else if s \<ge> fl (7 / 10) then ''high''
      else if s \<ge> fl (5 / 10) then ''moderate''
      else ''low'')"

text \<open>Sequencing of computations that can raise, and a comprehension whose body can.\<close>

definition bind_exc :: "py_exc + 'a \<Rightarrow> ('a \<Rightarrow> py_exc + 'b) \<Rightarrow> py_exc + 'b" where
  "bind_exc m f = (case m of Inl e \<Rightarrow> Inl e | Inr v \<Rightarrow> f v)"

fun collect :: "('a \<Rightarrow> py_exc + 'b) \<Rightarrow> 'a list \<Rightarrow> py_exc + 'b list" where
  "collect f [] = Inr []"
| "collect f (x # xs) = bind_exc (f x) (\<lambda>y. bind_exc (collect f xs) (\<lambda>ys. Inr (y # ys)))"

text \<open>
  \<open>v.get(k, default)\<close> is a method of a dict only; \<open>for x in v\<close> walks a list, the keys of
  a dict or the characters of a string, and raises TypeError on the other JSON values;
  \<open>round(v, 2)\<close> takes a float, or an int or a bool, which it returns as they are.
\<close>

definition dict_get :: "json \<Rightarrow> string \<Rightarrow> json \<Rightarrow> py_exc + json" where
  "dict_get v k dflt =
     (case v of
        JObj items \<Rightarrow> Inr (case map_of items k of None \<Rightarrow> dflt | Some x \<Rightarrow> x)
      | _ \<Rightarrow> Inl AttributeError)"

definition py_iter :: "json \<Rightarrow> py_exc + json list" where
  "py_iter v =
     (case v of
        JArr xs \<Rightarrow> Inr xs
      | JObj items \<Rightarrow> Inr (map (\<lambda>kv. JStr (fst kv)) items)
      | JStr s \<Rightarrow> Inr (map (\<lambda>c. JStr [c]) s)
      | _ \<Rightarrow> Inl TypeError)"

definition round_json :: "json \<Rightarrow> nat \<Rightarrow> py_exc + rat" where
  "round_json v n =
     (case v of
        JFloat q \<Rightarrow> Inr (py_round q n)
      | JInt i \<Rightarrow> Inr (of_int i)
      | JBool b \<Rightarrow> Inr (if b then 1 else 0)
      | _ \<Rightarrow> Inl TypeError)"

text \<open>One entry of \<open>"academic_sources"\<close>, its fields evaluated in the order written.\<close>

definition source_entry :: "json \<Rightarrow> py_exc + academic_source" where
  "source_entry paper =
     bind_exc (dict_get paper ''title'' (JStr ''Untitled'')) (\<lambda>t.
     bind_exc (dict_get paper ''authors'' (JArr [])) (\<lambda>au.
     bind_exc (py_iter au) (\<lambda>as.
     bind_exc (collect (\<lambda>a. dict_get a ''name'' (JStr [])) as) (\<lambda>names.
     bind_exc (dict_get paper ''year'' (JStr [])) (\<lambda>y.
     bind_exc (dict_get paper ''url'' (JStr ''#'')) (\<lambda>u.
     bind_exc (dict_get paper ''citationCount'' (JInt 0)) (\<lambda>c.
     bind_exc (dict_get paper ''similarity'' (JInt 0)) (\<lambda>sim.
     bind_exc (round_json sim 2) (\<lambda>r.
       Inr \<lparr>title = t, authors = names, year = y, url = u, citationCount = c,
            similarity = r\<rparr>)))))))))"

definition rounded :: "label_score \<Rightarrow> label_score" where
  "rounded e = \<lparr>label = label e, score = py_round (score e) 3\<rparr>"

text \<open>The two entries of \<open>"emotional_complexity"\<close> and the list \<open>"emotional_triggers"\<close>.\<close>

definition mixed :: "label_score list \<Rightarrow> bool" where
  "mixed sorted_emotions =
     (length sorted_emotions > 1 \<and>
      float_sub (score (sorted_emotions ! 0)) (score (sorted_emotions ! 1)) < fl (2 / 10))"

definition diversity :: "label_score list \<Rightarrow> py_exc + rat" where
  "diversity sorted_emotions =
     bind_exc
       (py_truediv (length (filter (\<lambda>e. score e > fl (1 / 10)) sorted_emotions))
          (length sorted_emotions))
       (\<lambda>q. Inr (py_round q 3))"

definition triggers :: "string list \<Rightarrow> label_score list \<Rightarrow> string list" where
  "triggers keywords sorted_emotions =
     filter (\<lambda>phrase. \<exists>emotion \<in> set (take 5 sorted_emotions).
                         str_contains (label emotion) (lower phrase)) keywords"

text \<open>The dictionary the endpoint returns, its entries evaluated in the order written.\<close>

definition build_report ::
  "label_score list \<Rightarrow> label_score \<Rightarrow> string list \<Rightarrow> json \<Rightarrow> py_exc + report" where
  "build_report sorted_emotions sentiment_result keywords sources =
     bind_exc (py_first sorted_emotions) (\<lambda>top.
     bind_exc (diversity sorted_emotions) (\<lambda>d.
     bind_exc (py_iter sources) (\<lambda>papers.
     bind_exc (collect source_entry papers) (\<lambda>entries.
       Inr \<lparr>sentiment = rounded sentiment_result,
            primary_emotion =
              \<lparr>label = label top, score = py_round (score top) 3,
               intensity = get_emotional_intensity (score top)\<rparr>,
            secondary_emotions = map rounded (drop 1 sorted_emotions),
            emotional_complexity =
              \<lparr>is_mixed = mixed sorted_emotions, diversity_score = d\<rparr>,
            keyword_insights =
              \<lparr>key_phrases = keywords,
               emotional_triggers = triggers keywords sorted_emotions\<rparr>,
            academic_sources = entries,
            full_breakdown =
              fold (\<lambda>e d. dict_set (label e) (py_round (score e) 3) d) sorted_emotions []\<rparr>))))"

text \<open>
  The body of the \<open>try\<close> of \<open>analyze_emotion\<close>, on the stripped text, and the endpoint
  itself: the two checks, then the body, any exception of which becomes status 500.
\<close>

definition analysis :: "env \<Rightarrow> AnalysisRequest \<Rightarrow> string \<Rightarrow> (py_exc + report) \<times> event list" where
  "analysis E request txt =
     (case bind_exc (emotion_classifier E txt) py_first of
        Inl e \<Rightarrow> (Inl e, [])
      | Inr emotion_results \<Rightarrow>
          (let sorted_emotions = sorted_reverse score emotion_results
           in case bind_exc (sentiment_analyzer E txt) py_first of
                Inl e \<Rightarrow> (Inl e, [])
              | Inr sentiment_result \<Rightarrow>
                  (case extract_keywords E txt of
                     Inl e \<Rightarrow> (Inl e, [])
                   | Inr kws \<Rightarrow>
                       (let keywords = map fst kws
                        in case (if find_sources request = Some True \<and> keywords \<noteq> []
                                 then fetch_academic_articles E txt keywords
                                 else (Inr (JArr []), [])) of
                             (fetched, tr) \<Rightarrow>
                               (bind_exc fetched
                                  (build_report sorted_emotions sentiment_result keywords),
                                tr)))))"

definition analyze_emotion ::
  "env \<Rightarrow> AnalysisRequest \<Rightarrow> string \<Rightarrow> (http_exception + report) \<times> event list" where
  "analyze_emotion E request x_api_key =
     (if Some x_api_key \<noteq> api_key E then (Inl (HTTPException 401 Invalid_API_key), [])
      else
        (let txt = strip (request_text request)
         in if txt = [] \<or> length txt > 1000
            then (Inl (HTTPException 400 Invalid_text_input), [])
            else
              (case analysis E request txt of
                 (Inl e, tr) \<Rightarrow> (Inl (HTTPException 500 (Str_of e)), tr)
               | (Inr r, tr) \<Rightarrow> (Inr r, tr))))"

subsection \<open>The specification's notions\<close>

text \<open>
  "Remove duplicates keeping first occurrence" (Query Formulator, step 3), as a recursion
  on the list.
\<close>

fun keep_first :: "'a list \<Rightarrow> 'a list" where
  "keep_first [] = []"
| "keep_first (x # xs) = x # keep_first (filter (\<lambda>y. y \<noteq> x) xs)"

text \<open>
  The synonyms the Synonym Resolver accepts for one term, in the order the loop meets
  them, and "first-encountered order across the iteration over primary terms, then within
  each term's result set" (Query Formulator, step 2).
\<close>

definition term_synonyms :: "env \<Rightarrow> string \<Rightarrow> string list" where
  "term_synonyms E keyword =
     (case get_wordnet_synonyms E keyword of
        Inl e \<Rightarrow> []
      | Inr wordnet_syns \<Rightarrow>
          (case similarities E (keyword # wordnet_syns) of
             Inl e \<Rightarrow> []
           | Inr sims \<Rightarrow> valid_synonyms wordnet_syns sims))"

definition first_encountered :: "env \<Rightarrow> string list \<Rightarrow> string list" where
  "first_encountered E keywords = keep_first (concat (map (term_synonyms E) keywords))"



text \<open>A string is case-normalized when lowering it changes nothing.\<close>

definition case_normalized :: "string \<Rightarrow> bool" where
  "case_normalized s = (lower s = s)"

text \<open>
  The literature search fails: the transport raised, the status is 4xx or 5xx, or the
  body is not JSON.
\<close>

definition search_fails :: "http_outcome \<Rightarrow> bool" where
  "search_fails out =
     (case out of
        Transport_failure \<Rightarrow> True
      | Response status body \<Rightarrow> (400 \<le> status \<and> status < 600) \<or> body = Not_json)"

subsection \<open>Stubbed collaborators\<close>

text \<open>
  One set of stubs for the examples: a classifier with four labels, two of them tied,
  whose scores are the floats 0.40, 0.95, 0.40 and 0.10; two keywords; WordNet entries
  with an underscore, a capital and a repeated lemma; a similarity that accepts
  \<open>delight\<close> and \<open>sorry\<close>; a search that finds one paper; and a set iteration that walks
  shorter strings first. \<open>stub_close_emotions\<close> are the scores 0.55 and 0.45.
\<close>

definition stub_emotions :: "label_score list" where
  "stub_emotions =
     [\<lparr>label = ''sadness'', score = fl (40 / 100)\<rparr>, \<lparr>label = ''joy'', score = fl (95 / 100)\<rparr>,
      \<lparr>label = ''fear'', score = fl (40 / 100)\<rparr>, \<lparr>label = ''anger'', score = fl (10 / 100)\<rparr>]"


definition stub_synsets :: "string \<Rightarrow> py_exc + string list list" where
  "stub_synsets w =
     (if w = ''joy'' then Inr [[''joy'', ''delight''], [''pleasure'', ''delight'']]
      else if w = ''sad'' then Inr [[''sad'', ''sorry'']]
      else if w = ''paris'' then Inr [[''Paris'', ''City_of_Light'']]
      else Inr [])"

definition stub_similarities :: "string list \<Rightarrow> py_exc + rat list" where
  "stub_similarities xs =
     Inr (map (\<lambda>c. if c = hd xs then 1
                    else if c = ''delight'' \<or> c = ''sorry'' then 3 / 4
                    else 1 / 4) (tl xs))"

definition stub_paper :: json where
  "stub_paper = JObj [(''title'', JStr ''On joy''), (''year'', JInt 2020)]"

definition stub_env :: env where
  "stub_env =
     \<lparr>api_key = Some ''secret'',
      emotion_classifier = (\<lambda>t. Inr [stub_emotions]),
      sentiment_analyzer = (\<lambda>t. Inr [\<lparr>label = ''POSITIVE'', score = 255 / 256\<rparr>]),
      extract_keywords = (\<lambda>t. Inr [(''joy'', 3 / 4), (''sad'', 1 / 2)]),
      synsets = stub_synsets,
      similarities = stub_similarities,
      http_get = (\<lambda>u p. Response 200 (Json (JObj [(''data'', JArr [stub_paper])]))),
      set_iter = sort_key length\<rparr>"

definition stub_request :: AnalysisRequest where
  "stub_request = \<lparr>request_text = '' I feel joy '', find_sources = Some True\<rparr>"

section \<open>Properties\<close>

subsection \<open>Sets and dicts in insertion order\<close>

lemma keep_first_filter: "keep_first (filter P xs) = filter P (keep_first xs)"
proof (induction xs rule: keep_first.induct)
  case 1
  then show ?case by simp
next
  case (2 x xs)
  have IH: "keep_first (filter P (filter (\<lambda>y. y \<noteq> x) xs)) =
            filter P (keep_first (filter (\<lambda>y. y \<noteq> x) xs))"
    using 2 by simp
  show ?case
  proof (cases "P x")
    case True
    have "filter (\<lambda>y. y \<noteq> x) (filter P xs) = filter P (filter (\<lambda>y. y \<noteq> x) xs)"
      by (induction xs) auto
    then show ?thesis using True IH by simp
  next
    case False
    have "filter P (filter (\<lambda>y. y \<noteq> x) xs) = filter P xs"
      using False by (induction xs) auto
    then show ?thesis using False IH by simp
  qed
qed

lemma set_keep_first: "set (keep_first xs) = set xs"
  by (induction xs rule: keep_first.induct) auto

lemma distinct_keep_first: "distinct (keep_first xs)"
  by (induction xs rule: keep_first.induct) (auto simp: set_keep_first)

lemma fold_set_add:
  "fold set_add xs acc = acc @ keep_first (filter (\<lambda>x. x \<notin> set acc) xs)"
proof (induction xs arbitrary: acc)
  case Nil
  then show ?case by simp
next
  case (Cons x xs)
  show ?case
  proof (cases "x \<in> set acc")
    case True
    then show ?thesis using Cons by (simp add: set_add_def)
  next
    case False
    have "filter (\<lambda>y. y \<notin> set (acc @ [x])) xs =
          filter (\<lambda>y. y \<noteq> x) (filter (\<lambda>y. y \<notin> set acc) xs)"
      by (induction xs) auto
    then show ?thesis using False Cons by (simp add: set_add_def)
  qed
qed

lemma dict_fromkeys_keep_first: "dict_fromkeys xs = keep_first xs"
proof -
  have "dict_fromkeys xs = fold set_add xs []"
    by (simp add: dict_fromkeys_def set_add_def[abs_def])
  then show ?thesis by (simp add: fold_set_add)
qed

lemma set_of_list_keep_first: "set_of_list xs = keep_first xs"
  by (simp add: set_of_list_def set_update_def fold_set_add)

subsection \<open>The query is duplicate-free and bounded\<close>

text \<open>
  Claim C1. For every keyword list, the terms of the query that \<open>formulate_search_query\<close>
  builds are pairwise different as strings; they are the primary terms followed by the
  synonyms with every repetition after the first occurrence removed; the query string
  returned is these terms joined by single spaces and cut after 300 characters; and so it
  has at most 300 characters.
\<close>

theorem query_terms_unique_and_bounded:
  "distinct (query_terms E keywords)
   \<and> query_terms E keywords =
       keep_first (take 3 keywords @ fst (get_bert_synonyms E (take 3 keywords)))
   \<and> fst (formulate_search_query E keywords) = take 300 (join_space (query_terms E keywords))
   \<and> length (fst (formulate_search_query E keywords)) \<le> 300"
  by (simp add: query_terms_def formulate_search_query_def dict_fromkeys_keep_first
      distinct_keep_first Let_def)

theorem query_terms_unique_and_bounded_witness:
  "distinct (query_terms stub_env [''joy'', ''sad''])
   \<and> query_terms stub_env [''joy'', ''sad''] =
       keep_first (take 3 [''joy'', ''sad''] @
                   fst (get_bert_synonyms stub_env (take 3 [''joy'', ''sad''])))
   \<and> fst (formulate_search_query stub_env [''joy'', ''sad''])
       = take 300 (join_space (query_terms stub_env [''joy'', ''sad'']))
   \<and> length (fst (formulate_search_query stub_env [''joy'', ''sad''])) \<le> 300
   \<and> query_terms stub_env [''joy'', ''sad''] = [''joy'', ''sad'', ''sorry'', ''delight'']
   \<and> fst (formulate_search_query stub_env [''joy'', ''sad'']) = ''joy sad sorry delight''"
proof -
  have "query_terms stub_env [''joy'', ''sad''] = [''joy'', ''sad'', ''sorry'', ''delight'']"
    by code_simp
  moreover have "fst (formulate_search_query stub_env [''joy'', ''sad'']) = ''joy sad sorry delight''"
    by code_simp
  ultimately show ?thesis
    using query_terms_unique_and_bounded [of stub_env "[''joy'', ''sad'']"] by blast
qed

subsection \<open>Floats\<close>

lemma float_literals:
  "fl (9 / 10) = 8106479329266893 / 2 ^ 53"
  "fl (7 / 10) = 3152519739159347 / 2 ^ 52"
  "fl (5 / 10) = 1 / 2"
  "fl (6 / 10) = 5404319552844595 / 2 ^ 53"
  "fl (2 / 10) = 3602879701896397 / 2 ^ 54"
  "fl (1 / 10) = 3602879701896397 / 2 ^ 55"
  by code_simp+

lemma similarity_threshold_on_doubles:
  "(6 / 10 < (of_int k :: rat) / 2 ^ 53) = (fl (6 / 10) < of_int k / 2 ^ 53)"
proof -
  have "(6 / 10 < (of_int k :: rat) / 2 ^ 53) = ((of_int 27021597764222976 :: rat) < of_int (k * 5))"
    by (simp add: field_simps)
  also have "\<dots> = (27021597764222976 < k * 5)"
    by (simp only: of_int_less_iff)
  also have "\<dots> = (5404319552844595 < k)"
    by presburger
  finally have "(6 / 10 < (of_int k :: rat) / 2 ^ 53) = (5404319552844595 < k)" .
  moreover have "(fl (6 / 10) < (of_int k :: rat) / 2 ^ 53) = (5404319552844595 < k)"
    unfolding float_literals by (simp add: field_simps)
  ultimately show ?thesis by simp
qed










subsection \<open>Sorting the emotions\<close>

lemma mset_insert_desc: "mset (insert_desc f x xs) = add_mset x (mset xs)"
  by (induction xs) auto

lemma set_insert_desc: "set (insert_desc f x xs) = insert x (set xs)"
  by (induction xs) auto

lemma sorted_insert_desc:
  "sorted_wrt (\<lambda>a b. f b \<le> f a) xs \<Longrightarrow> sorted_wrt (\<lambda>a b. f b \<le> f a) (insert_desc f x xs)"
proof (induction xs)
  case Nil
  then show ?case by simp
next
  case (Cons y ys)
  show ?case
  proof (cases "f y \<le> f x")
    case True
    then show ?thesis using Cons.prems by (auto intro: order_trans)
  next
    case False
    then show ?thesis using Cons by (auto simp: set_insert_desc)
  qed
qed

lemma filter_insert_desc:
  "filter (\<lambda>y. f y = k) (insert_desc f x xs) =
     (if f x = k then x # filter (\<lambda>y. f y = k) xs else filter (\<lambda>y. f y = k) xs)"
  by (induction xs) auto

lemma mset_sorted_reverse: "mset (sorted_reverse f xs) = mset xs"
  by (induction xs) (auto simp: sorted_reverse_def mset_insert_desc)

lemma sorted_sorted_reverse: "sorted_wrt (\<lambda>a b. f b \<le> f a) (sorted_reverse f xs)"
  by (induction xs) (auto simp: sorted_reverse_def sorted_insert_desc)

lemma stable_sorted_reverse:
  "filter (\<lambda>y. f y = k) (sorted_reverse f xs) = filter (\<lambda>y. f y = k) xs"
  by (induction xs) (auto simp: sorted_reverse_def filter_insert_desc)

lemma set_sorted_reverse: "set (sorted_reverse f xs) = set xs"
  using mset_sorted_reverse [of f xs] by (metis set_mset_mset)

lemma length_sorted_reverse: "length (sorted_reverse f xs) = length xs"
  using mset_sorted_reverse [of f xs] by (metis size_mset)

lemma sorted_reverse_nonempty: "xs \<noteq> [] \<Longrightarrow> sorted_reverse f xs \<noteq> []"
  using length_sorted_reverse [of f xs] by auto

lemma py_first_highest:
  assumes "xs \<noteq> []"
  shows "\<exists>t0. py_first (sorted_reverse f xs) = Inr t0 \<and> t0 \<in> set xs
           \<and> (\<forall>e \<in> set xs. f e \<le> f t0)"
proof -
  obtain t ts where ts: "sorted_reverse f xs = t # ts"
    using sorted_reverse_nonempty [OF assms, of f] by (cases "sorted_reverse f xs") auto
  have "sorted_wrt (\<lambda>a b. f b \<le> f a) (t # ts)"
    using sorted_sorted_reverse [of f xs] ts by simp
  then have le: "\<forall>e \<in> set (t # ts). f e \<le> f t" by auto
  have "set (t # ts) = set xs" using set_sorted_reverse [of f xs] ts by simp
  then show ?thesis using le ts by (auto simp: py_first_def)
qed

subsection \<open>The division of the diversity score\<close>

lemma diversity_value:
  assumes "xs \<noteq> []"
  shows "diversity (sorted_reverse score xs) =
           Inr (py_round (fl (of_nat (length (filter (\<lambda>e. fl (1 / 10) < score e) xs))
                              / of_nat (length xs))) 3)"
proof -
  have "mset (filter (\<lambda>e. fl (1 / 10) < score e) (sorted_reverse score xs)) =
        mset (filter (\<lambda>e. fl (1 / 10) < score e) xs)"
    by (simp add: mset_sorted_reverse)
  then have "length (filter (\<lambda>e. fl (1 / 10) < score e) (sorted_reverse score xs)) =
        length (filter (\<lambda>e. fl (1 / 10) < score e) xs)"
    by (metis size_mset)
  then show ?thesis using assms
    by (simp add: diversity_def py_truediv_def bind_exc_def length_sorted_reverse)
qed

subsection \<open>Synonyms\<close>

lemma set_update_Nil: "set_update s [] = s"
  by (simp add: set_update_def)

lemma valid_synonyms_Nil: "valid_synonyms [] sims = []"
  by (simp add: valid_synonyms_def)

lemma set_valid_synonyms:
  "set (valid_synonyms cands sims) =
     {c. \<exists>i. i < length cands \<and> i < length sims \<and> c = cands ! i \<and> 6 / 10 < sims ! i}"
  by (force simp: valid_synonyms_def set_zip)

lemma bert_round_fst:
  "fst (bert_round E k (syn, tr)) = set_update syn (term_synonyms E k)"
  by (auto simp: bert_round_def term_synonyms_def set_update_Nil valid_synonyms_Nil
      split: sum.splits)

lemma fold_bert_round_fst:
  "fst (fold (bert_round E) ks (syn, tr)) =
     fold set_add (concat (map (term_synonyms E) ks)) syn"
proof (induction ks arbitrary: syn tr)
  case Nil
  then show ?case by simp
next
  case (Cons k ks)
  obtain syn' tr' where st: "bert_round E k (syn, tr) = (syn', tr')"
    by (cases "bert_round E k (syn, tr)") auto
  then have "syn' = fold set_add (term_synonyms E k) syn"
    using bert_round_fst [of E k syn tr] by (simp add: set_update_def)
  then show ?case using Cons [of syn' tr'] st by simp
qed

lemma collected_first_encountered:
  "fst (fold (bert_round E) ks ([], [])) = first_encountered E ks"
  by (simp add: fold_bert_round_fst first_encountered_def fold_set_add)

lemma get_bert_synonyms_fst:
  "fst (get_bert_synonyms E ks) = set_iter E (first_encountered E ks)"
  using collected_first_encountered [of E ks]
  by (cases "fold (bert_round E) ks ([], [])") (simp add: get_bert_synonyms_def)

lemma get_bert_synonyms_snd:
  "snd (get_bert_synonyms E ks) = snd (fold (bert_round E) ks ([], []))"
  by (cases "fold (bert_round E) ks ([], [])") (simp add: get_bert_synonyms_def)

lemma valid_set_iter_set:
  "valid_set_iter f \<Longrightarrow> distinct xs \<Longrightarrow> set (f xs) = set xs"
  by (simp add: valid_set_iter_def)

lemma valid_set_iter_distinct:
  "valid_set_iter f \<Longrightarrow> distinct xs \<Longrightarrow> distinct (f xs)"
  by (simp add: valid_set_iter_def)

lemma valid_set_iter_Nil: "valid_set_iter f \<Longrightarrow> f [] = []"
  using valid_set_iter_set [of f "[]"] by simp

lemma distinct_first_encountered: "distinct (first_encountered E ks)"
  by (simp add: first_encountered_def distinct_keep_first)

lemma set_first_encountered:
  "set (first_encountered E ks) = (\<Union>k \<in> set ks. set (term_synonyms E k))"
  by (simp add: first_encountered_def set_keep_first)

lemma term_synonyms_origin:
  assumes "s \<in> set (term_synonyms E k)"
  shows "\<exists>cands sims i. get_wordnet_synonyms E k = Inr cands
           \<and> similarities E (k # cands) = Inr sims
           \<and> i < length cands \<and> i < length sims \<and> cands ! i = s \<and> 6 / 10 < sims ! i"
proof -
  obtain cands where c: "get_wordnet_synonyms E k = Inr cands"
    using assms by (cases "get_wordnet_synonyms E k") (auto simp: term_synonyms_def)
  obtain sims where s: "similarities E (k # cands) = Inr sims"
    using assms c by (cases "similarities E (k # cands)") (auto simp: term_synonyms_def)
  have "s \<in> set (valid_synonyms cands sims)"
    using assms c s by (simp add: term_synonyms_def)
  then show ?thesis using c s by (auto simp: set_valid_synonyms)
qed

lemma get_wordnet_synonyms_distinct:
  assumes "valid_set_iter (set_iter E)" and "get_wordnet_synonyms E w = Inr cands"
  shows "distinct cands"
  using assms
  by (auto simp: get_wordnet_synonyms_def set_of_list_keep_first distinct_keep_first
      valid_set_iter_distinct split: sum.splits)

text \<open>
  Claim C2. With a set iteration that enumerates every element once: when the dictionary
  lookup for a term yields no candidates, the resolver returns no synonyms and makes no
  encoder call; when it yields candidates and the encoder answers, there is one encoder
  call and the synonyms returned for the term are exactly the candidates paired with a
  similarity strictly above 0.6; and for any list of terms, every synonym returned is a
  candidate of one of the terms whose similarity to that term is strictly above 0.6.
\<close>

theorem synonym_resolver_threshold:
  assumes "valid_set_iter (set_iter E)"
  shows "(get_wordnet_synonyms E term = Inr [] \<longrightarrow> get_bert_synonyms E [term] = ([], []))
    \<and> (\<forall>cands sims.
          get_wordnet_synonyms E term = Inr cands \<and> cands \<noteq> []
          \<and> similarities E (term # cands) = Inr sims \<longrightarrow>
            distinct cands
            \<and> snd (get_bert_synonyms E [term]) = [Encode (term # cands)]
            \<and> set (fst (get_bert_synonyms E [term])) =
                {c. \<exists>i. i < length cands \<and> i < length sims \<and> c = cands ! i
                         \<and> 6 / 10 < sims ! i})
    \<and> (\<forall>s \<in> set (fst (get_bert_synonyms E keywords)).
          \<exists>k \<in> set keywords. \<exists>cands sims i.
            get_wordnet_synonyms E k = Inr cands \<and> similarities E (k # cands) = Inr sims
            \<and> i < length cands \<and> i < length sims \<and> cands ! i = s \<and> 6 / 10 < sims ! i)"
proof (intro conjI impI allI ballI)
  assume "get_wordnet_synonyms E term = Inr []"
  then show "get_bert_synonyms E [term] = ([], [])"
    using valid_set_iter_Nil [OF assms]
    by (simp add: get_bert_synonyms_def bert_round_def)
next
  fix cands sims
  assume h: "get_wordnet_synonyms E term = Inr cands \<and> cands \<noteq> []
          \<and> similarities E (term # cands) = Inr sims"
  then show "distinct cands"
    using get_wordnet_synonyms_distinct [OF assms] by blast
  show "snd (get_bert_synonyms E [term]) = [Encode (term # cands)]"
    using h by (simp add: get_bert_synonyms_def bert_round_def)
  have "first_encountered E [term] = keep_first (valid_synonyms cands sims)"
    using h by (simp add: first_encountered_def term_synonyms_def)
  then have "set (fst (get_bert_synonyms E [term])) = set (valid_synonyms cands sims)"
    using valid_set_iter_set [OF assms distinct_keep_first]
    by (simp add: get_bert_synonyms_fst set_keep_first)
  then show "set (fst (get_bert_synonyms E [term])) =
                {c. \<exists>i. i < length cands \<and> i < length sims \<and> c = cands ! i
                         \<and> 6 / 10 < sims ! i}"
    by (simp add: set_valid_synonyms)
next
  fix s assume "s \<in> set (fst (get_bert_synonyms E keywords))"
  then have "s \<in> (\<Union>k \<in> set keywords. set (term_synonyms E k))"
    using valid_set_iter_set [OF assms distinct_first_encountered]
    by (simp add: get_bert_synonyms_fst set_first_encountered)
  then obtain k where k: "k \<in> set keywords" "s \<in> set (term_synonyms E k)" by blast
  show "\<exists>k \<in> set keywords. \<exists>cands sims i.
            get_wordnet_synonyms E k = Inr cands \<and> similarities E (k # cands) = Inr sims
            \<and> i < length cands \<and> i < length sims \<and> cands ! i = s \<and> 6 / 10 < sims ! i"
    using k term_synonyms_origin [OF k(2)] by blast
qed

lemma valid_sort_key_length: "valid_set_iter (sort_key length)"
  by (simp add: valid_set_iter_def)


theorem synonym_resolver_threshold_witness:
  "valid_set_iter (set_iter stub_env)
   \<and> get_wordnet_synonyms stub_env ''zzz'' = Inr []
   \<and> get_bert_synonyms stub_env [''zzz''] = ([], [])
   \<and> get_wordnet_synonyms stub_env ''joy'' = Inr [''joy'', ''delight'', ''pleasure'']
   \<and> similarities stub_env [''joy'', ''joy'', ''delight'', ''pleasure''] = Inr [1, 3 / 4, 1 / 4]
   \<and> snd (get_bert_synonyms stub_env [''joy'']) = [Encode [''joy'', ''joy'', ''delight'', ''pleasure'']]
   \<and> set (fst (get_bert_synonyms stub_env [''joy''])) = {''joy'', ''delight''}"
proof -
  have v: "valid_set_iter (set_iter stub_env)"
    by (simp add: stub_env_def valid_sort_key_length)
  have none: "get_wordnet_synonyms stub_env ''zzz'' = Inr []" by code_simp
  have joy: "get_wordnet_synonyms stub_env ''joy'' = Inr [''joy'', ''delight'', ''pleasure'']"
    by code_simp
  have sims: "similarities stub_env [''joy'', ''joy'', ''delight'', ''pleasure''] = Inr [1, 3 / 4, 1 / 4]"
    by code_simp
  have a: "get_bert_synonyms stub_env [''zzz''] = ([], [])"
    using synonym_resolver_threshold [OF v, of "''zzz''"] none by blast
  have b: "snd (get_bert_synonyms stub_env [''joy'']) = [Encode [''joy'', ''joy'', ''delight'', ''pleasure'']]
      \<and> set (fst (get_bert_synonyms stub_env [''joy''])) =
          {c. \<exists>i. i < length [''joy'', ''delight'', ''pleasure''] \<and> i < length [1, 3 / 4, 1 / 4 :: rat]
                   \<and> c = [''joy'', ''delight'', ''pleasure''] ! i \<and> 6 / 10 < [1, 3 / 4, 1 / 4 :: rat] ! i}"
    using synonym_resolver_threshold [OF v, of "''joy''"] joy sims by blast
  have "{c. \<exists>i. i < length [''joy'', ''delight'', ''pleasure''] \<and> i < length [1, 3 / 4, 1 / 4 :: rat]
                   \<and> c = [''joy'', ''delight'', ''pleasure''] ! i \<and> 6 / 10 < [1, 3 / 4, 1 / 4 :: rat] ! i}
        = {''joy'', ''delight''}"
    by (auto simp: nth_Cons' less_Suc_eq numeral_3_eq_3 intro: exI [of _ 0] exI [of _ 1])
  then show ?thesis using v none joy sims a b by simp
qed

text \<open>
  Claim C9, amended. With a set iteration that enumerates every element once, the
  candidates of a term are the lemma names of its synsets with every underscore replaced
  by a space, each once, and none contains an underscore. The case of the names is kept
  as WordNet has it: the code does not normalize it.
\<close>

theorem wordnet_candidates_underscores_and_duplicates:
  assumes "valid_set_iter (set_iter E)" and "synsets E word = Inr syns"
  shows "\<exists>cands. get_wordnet_synonyms E word = Inr cands
           \<and> distinct cands
           \<and> set cands = set (map replace_underscore (concat syns))
           \<and> (\<forall>c \<in> set cands. CHR ''_'' \<notin> set c)"
proof -
  let ?names = "map replace_underscore (concat syns)"
  have g: "get_wordnet_synonyms E word = Inr (set_iter E (keep_first ?names))"
    using assms(2) by (simp add: get_wordnet_synonyms_def set_of_list_keep_first)
  have d: "distinct (set_iter E (keep_first ?names))"
    using valid_set_iter_distinct [OF assms(1) distinct_keep_first] .
  have s: "set (set_iter E (keep_first ?names)) = set ?names"
    using valid_set_iter_set [OF assms(1) distinct_keep_first] by (simp add: set_keep_first)
  have "\<forall>c \<in> set ?names. CHR ''_'' \<notin> set c"
    by (auto simp: replace_underscore_def)
  then show ?thesis using g d s by simp
qed

theorem wordnet_candidates_underscores_and_duplicates_witness:
  "valid_set_iter (set_iter stub_env)
   \<and> synsets stub_env ''joy'' = Inr [[''joy'', ''delight''], [''pleasure'', ''delight'']]
   \<and> (\<exists>cands. get_wordnet_synonyms stub_env ''joy'' = Inr cands \<and> distinct cands
         \<and> set cands = {''joy'', ''delight'', ''pleasure''})"
proof -
  have v: "valid_set_iter (set_iter stub_env)"
    by (simp add: stub_env_def valid_sort_key_length)
  have sy: "synsets stub_env ''joy'' = Inr [[''joy'', ''delight''], [''pleasure'', ''delight'']]"
    by (simp add: stub_env_def stub_synsets_def)
  have "set (map replace_underscore (concat [[''joy'', ''delight''], [''pleasure'', ''delight'']]))
        = {''joy'', ''delight'', ''pleasure''}"
    by (auto simp: replace_underscore_def)
  then show ?thesis
    using v sy wordnet_candidates_underscores_and_duplicates [OF v sy] by auto
qed

text \<open>
  The claim as stated fails: the lemma names \<open>Paris\<close> and \<open>City_of_Light\<close> of WordNet's
  entry for \<open>paris\<close> come out as \<open>Paris\<close> and \<open>City of Light\<close>, capitals kept.
\<close>

theorem wordnet_candidates_case_counterexample:
  "get_wordnet_synonyms stub_env ''paris'' = Inr [''Paris'', ''City of Light'']
   \<and> \<not> case_normalized ''Paris''
   \<and> \<not> case_normalized ''City of Light''"
  by code_simp

subsection \<open>The primary terms lead the query\<close>

lemma keep_first_distinct: "distinct xs \<Longrightarrow> keep_first xs = xs"
proof (induction xs)
  case Nil
  then show ?case by simp
next
  case (Cons x xs)
  then have "filter (\<lambda>y. y \<noteq> x) xs = xs" by (auto intro: filter_True)
  then show ?case using Cons by simp
qed

lemma keep_first_append:
  assumes "distinct xs"
  shows "keep_first (xs @ ys) = xs @ keep_first (filter (\<lambda>y. y \<notin> set xs) ys)"
proof -
  have 1: "fold set_add xs [] = xs"
    using assms by (simp add: fold_set_add keep_first_distinct)
  have "fold set_add (xs @ ys) [] = [] @ keep_first (filter (\<lambda>x. x \<notin> set []) (xs @ ys))"
    by (rule fold_set_add)
  then have "keep_first (xs @ ys) = fold set_add (xs @ ys) []"
    by (simp del: fold_append)
  also have "\<dots> = fold set_add ys (fold set_add xs [])"
    by (simp only: fold_append comp_def)
  also have "\<dots> = fold set_add ys xs"
    by (simp only: 1)
  also have "\<dots> = xs @ keep_first (filter (\<lambda>y. y \<notin> set xs) ys)"
    by (rule fold_set_add)
  finally show ?thesis .
qed

lemma join_space_append: "\<exists>rest. join_space (xs @ ys) = join_space xs @ rest"
proof (induction xs rule: join_space.induct)
  case 1
  then show ?case by simp
next
  case (2 x)
  then show ?case by (cases ys) auto
next
  case (3 x y zs)
  then show ?case by auto
qed

text \<open>
  Claim C8, amended. For every keyword list of at most 3 pairwise different keywords, the
  first terms of the query are the keywords themselves, in their order; and when the
  keywords joined by spaces fit in 300 characters, the query string starts with them.
\<close>

theorem primary_terms_prefix:
  assumes "length keywords \<le> 3" and "distinct keywords"
  shows "take (length keywords) (query_terms E keywords) = keywords
    \<and> (length (join_space keywords) \<le> 300 \<longrightarrow>
         take (length (join_space keywords)) (fst (formulate_search_query E keywords))
           = join_space keywords)"
proof -
  have q: "query_terms E keywords =
      keywords @ keep_first (filter (\<lambda>y. y \<notin> set keywords) (fst (get_bert_synonyms E keywords)))"
    using assms by (simp add: query_terms_def dict_fromkeys_keep_first keep_first_append)
  obtain rest where r: "join_space (query_terms E keywords) = join_space keywords @ rest"
    using q join_space_append by metis
  have "length (join_space keywords) \<le> 300 \<longrightarrow>
         take (length (join_space keywords)) (fst (formulate_search_query E keywords))
           = join_space keywords"
    by (simp add: formulate_search_query_def r min_def)
  then show ?thesis using q by simp
qed

theorem primary_terms_prefix_witness:
  "length [''joy'', ''sad''] \<le> 3 \<and> distinct [''joy'', ''sad'']
   \<and> take (length [''joy'', ''sad'']) (query_terms stub_env [''joy'', ''sad'']) = [''joy'', ''sad'']
   \<and> length (join_space [''joy'', ''sad'']) \<le> 300
   \<and> take (length (join_space [''joy'', ''sad'']))
        (fst (formulate_search_query stub_env [''joy'', ''sad''])) = join_space [''joy'', ''sad'']"
proof -
  have h1: "length [''joy'', ''sad''] \<le> 3" and h2: "distinct [''joy'', ''sad'']"
    and h3: "length (join_space [''joy'', ''sad'']) \<le> 300"
    by simp_all
  show ?thesis using h1 h2 h3 primary_terms_prefix [OF h1 h2, of stub_env] by blast
qed

text \<open>
  The claim as stated fails on a keyword that occurs twice, since the query keeps one
  occurrence, and on a keyword of 301 characters, since the query is cut at 300.
\<close>

theorem primary_terms_prefix_counterexample:
  "length [''joy'', ''joy''] \<le> 3
   \<and> query_terms stub_env [''joy'', ''joy''] = [''joy'', ''delight'']
   \<and> take (length [''joy'', ''joy'']) (query_terms stub_env [''joy'', ''joy'']) \<noteq> [''joy'', ''joy'']
   \<and> fst (formulate_search_query stub_env [''joy'', ''joy'']) = ''joy delight''
   \<and> length [replicate 301 (CHR ''x'')] \<le> 3
   \<and> fst (formulate_search_query stub_env [replicate 301 (CHR ''x'')]) = replicate 300 (CHR ''x'')"
proof -
  have a: "query_terms stub_env [''joy'', ''joy''] = [''joy'', ''delight'']" by code_simp
  have b: "fst (formulate_search_query stub_env [''joy'', ''joy'']) = ''joy delight''" by code_simp
  have c: "fst (formulate_search_query stub_env [replicate 301 (CHR ''x'')]) = replicate 300 (CHR ''x'')"
    by code_simp
  show ?thesis using a b c by simp
qed

subsection \<open>The endpoint\<close>

lemma search_fails_caught:
  assumes "search_fails (http_get E scholar_url (scholar_params query))"
  shows "search_semantic_scholar E query =
           (Inr (JArr []),
            [Http_get scholar_url (scholar_params query), Print_scholar_error RequestException])"
  using assms
  by (auto simp: search_semantic_scholar_def search_fails_def Let_def
      split: http_outcome.splits http_body.splits)

lemma fetch_fst:
  "fst (fetch_academic_articles E txt kws) =
     fst (search_semantic_scholar E (fst (formulate_search_query E kws)))"
  by (simp add: fetch_academic_articles_def split: prod.splits)

lemma search_fst_constant:
  assumes "\<forall>u p. http_get E u p = out" and "\<forall>u p. http_get E' u p = out"
  shows "fst (search_semantic_scholar E' q') = fst (search_semantic_scholar E q)"
proof -
  have "http_get E scholar_url (scholar_params q) = out"
    and "http_get E' scholar_url (scholar_params q') = out"
    using assms by simp_all
  then show ?thesis
    by (auto simp: search_semantic_scholar_def Let_def
        split: http_outcome.splits http_body.splits json.splits)
qed

lemma collect_Nil: "collect f [] = Inr []"
  by simp

lemma build_report_ok:
  assumes "s \<noteq> []" and "bind_exc (py_iter src) (collect source_entry) = Inr entries"
  shows "\<exists>r. build_report s sent kws src = Inr r \<and> academic_sources r = entries"
proof -
  obtain t0 ts where s: "s = t0 # ts" using assms(1) by (cases s) auto
  obtain papers where p: "py_iter src = Inr papers" "collect source_entry papers = Inr entries"
    using assms(2) by (cases "py_iter src") (auto simp: bind_exc_def)
  show ?thesis
    using s p
    by (simp add: build_report_def bind_exc_def py_first_def diversity_def py_truediv_def)
qed

lemma build_report_no_sources:
  assumes "s \<noteq> []"
  shows "\<exists>r. build_report s sent kws (JArr []) = Inr r \<and> academic_sources r = []"
  by (rule build_report_ok [OF assms]) (simp add: py_iter_def bind_exc_def)

lemma build_report_empty: "build_report [] sent kws src = Inl IndexError"
  by (simp add: build_report_def py_first_def bind_exc_def)

lemma analysis_run:
  assumes "emotion_classifier E txt = Inr (ems # rest)"
    and "sentiment_analyzer E txt = Inr (sent # srest)"
    and "extract_keywords E txt = Inr kws"
  shows "analysis E req txt =
     (if find_sources req = Some True \<and> kws \<noteq> []
      then (bind_exc (fst (fetch_academic_articles E txt (map fst kws)))
              (build_report (sorted_reverse score ems) sent (map fst kws)),
            snd (fetch_academic_articles E txt (map fst kws)))
      else (build_report (sorted_reverse score ems) sent (map fst kws) (JArr []), []))"
  using assms
  by (simp add: analysis_def bind_exc_def py_first_def Let_def split: prod.splits)

lemma analyze_emotion_run:
  assumes "Some key = api_key E" and "strip (request_text req) = txt"
    and "txt \<noteq> []" and "length txt \<le> 1000"
  shows "analyze_emotion E req key =
     (case analysis E req txt of
        (Inl e, tr) \<Rightarrow> (Inl (HTTPException 500 (Str_of e)), tr)
      | (Inr r, tr) \<Rightarrow> (Inr r, tr))"
  using assms by (simp add: analyze_emotion_def Let_def)

lemma analysis_empty_scores:
  assumes "emotion_classifier E txt = Inr ([] # rest)"
  shows "\<exists>e. fst (analysis E req txt) = Inl e"
  using assms
  by (auto simp: analysis_def bind_exc_def py_first_def Let_def sorted_reverse_def
      build_report_empty split: prod.splits sum.splits list.splits)

text \<open>
  Claim C3, amended. When the literature search fails with an exception of the HTTP
  library (the transport raises, as on a timeout; the status is 4xx or 5xx; the body is
  not JSON), \<open>search_semantic_scholar\<close> prints the failure and returns the empty list, and
  a request whose classifiers and keyphrase extractor answer gets its report, with
  \<open>academic_sources = []\<close>.
\<close>

theorem search_failure_is_not_fatal:
  assumes "\<forall>u p. search_fails (http_get E u p)"
  shows "search_semantic_scholar E query =
           (Inr (JArr []),
            [Http_get scholar_url (scholar_params query), Print_scholar_error RequestException])
    \<and> (Some key = api_key E \<and> strip (request_text req) = stripped \<and> stripped \<noteq> []
        \<and> length stripped \<le> 1000 \<and> emotion_classifier E stripped = Inr (ems # rest) \<and> ems \<noteq> []
        \<and> sentiment_analyzer E stripped = Inr (sent # srest) \<and> extract_keywords E stripped = Inr kws
        \<longrightarrow> (\<exists>r. fst (analyze_emotion E req key) = Inr r \<and> academic_sources r = []))"
proof (intro conjI impI)
  show "search_semantic_scholar E query =
           (Inr (JArr []),
            [Http_get scholar_url (scholar_params query), Print_scholar_error RequestException])"
    using assms by (simp add: search_fails_caught)
next
  assume h: "Some key = api_key E \<and> strip (request_text req) = stripped \<and> stripped \<noteq> []
        \<and> length stripped \<le> 1000 \<and> emotion_classifier E stripped = Inr (ems # rest) \<and> ems \<noteq> []
        \<and> sentiment_analyzer E stripped = Inr (sent # srest) \<and> extract_keywords E stripped = Inr kws"
  have f: "fst (fetch_academic_articles E stripped (map fst kws)) = Inr (JArr [])"
    using assms by (simp add: fetch_fst search_fails_caught)
  obtain r where r: "build_report (sorted_reverse score ems) sent (map fst kws) (JArr []) = Inr r"
    "academic_sources r = []"
    using build_report_no_sources [OF sorted_reverse_nonempty] h by blast
  have "fst (analysis E req stripped) = Inr r"
    using h f r(1) by (simp add: analysis_run bind_exc_def)
  then have "fst (analyze_emotion E req key) = Inr r"
    using h by (cases "analysis E req stripped") (simp add: analyze_emotion_run)
  then show "\<exists>r. fst (analyze_emotion E req key) = Inr r \<and> academic_sources r = []"
    using r(2) by blast
qed


text \<open>The stubbed request, stripped.\<close>

lemma stub_strip: "strip (request_text stub_request) = ''I feel joy''"
  by code_simp

theorem search_failure_is_not_fatal_witness:
  "(\<forall>u p. search_fails (http_get (stub_env\<lparr>http_get := \<lambda>u p. Transport_failure\<rparr>) u p))
   \<and> search_semantic_scholar (stub_env\<lparr>http_get := \<lambda>u p. Transport_failure\<rparr>) ''joy'' =
        (Inr (JArr []),
         [Http_get scholar_url (scholar_params ''joy''), Print_scholar_error RequestException])
   \<and> (\<exists>r. fst (analyze_emotion (stub_env\<lparr>http_get := \<lambda>u p. Transport_failure\<rparr>)
                 stub_request ''secret'') = Inr r
          \<and> academic_sources r = [])"
proof -
  let ?E = "stub_env\<lparr>http_get := \<lambda>u p. Transport_failure\<rparr>"
  have f: "\<forall>u p. search_fails (http_get ?E u p)"
    by (simp add: search_fails_def)
  have h: "Some ''secret'' = api_key ?E \<and> strip (request_text stub_request) = ''I feel joy''
        \<and> ''I feel joy'' \<noteq> [] \<and> length ''I feel joy'' \<le> 1000
        \<and> emotion_classifier ?E ''I feel joy'' = Inr (stub_emotions # [])
        \<and> stub_emotions \<noteq> []
        \<and> sentiment_analyzer ?E ''I feel joy''
            = Inr (\<lparr>label = ''POSITIVE'', score = 255 / 256\<rparr> # [])
        \<and> extract_keywords ?E ''I feel joy'' = Inr [(''joy'', 3 / 4), (''sad'', 1 / 2)]"
    by (simp add: stub_env_def stub_strip stub_emotions_def)
  show ?thesis
    using f h search_failure_is_not_fatal [OF f, where query = "''joy''" and key = "''secret''"
        and req = stub_request and stripped = "''I feel joy''" and ems = stub_emotions and rest = "[]"
        and sent = "\<lparr>label = ''POSITIVE'', score = 255 / 256\<rparr>" and srest = "[]"
        and kws = "[(''joy'', 3 / 4), (''sad'', 1 / 2)]"]
    by blast
qed

text \<open>
  The claim as stated fails on a malformed body that is JSON: on the body \<open>[]\<close> with
  status 200, \<open>.get\<close> raises AttributeError, which \<open>except requests.RequestException\<close>
  does not catch, and the endpoint answers 500 instead of a report. It also fails on a
  status that is neither 2xx nor an error for \<open>raise_for_status\<close>: with status 300 and
  a well-formed body the fetcher returns the papers of the body.
\<close>

theorem search_failure_counterexample:
  "fst (analyze_emotion (stub_env\<lparr>http_get := \<lambda>u p. Response 200 (Json (JArr []))\<rparr>)
         stub_request ''secret'')
     = Inl (HTTPException 500 (Str_of AttributeError))
   \<and> fst (search_semantic_scholar
            (stub_env\<lparr>http_get := \<lambda>u p. Response 300 (Json (JObj [(''data'', JArr [stub_paper])]))\<rparr>)
            ''joy'')
     = Inr (JArr [stub_paper])"
  by code_simp

text \<open>
  Claim C7. For every request whose keyword list is empty, whatever \<open>find_sources\<close> is:
  the query formulated from the empty list is the empty string (with a set iteration that
  enumerates every element once); the endpoint makes no network request and no encoder
  call, its trace being empty; and the report, when there is one, has
  \<open>academic_sources = []\<close>. There is one when the key and the text are valid and the
  classifiers answer, the emotion scores being non-empty.
\<close>

theorem no_keywords_no_search:
  assumes "valid_set_iter (set_iter E)"
    and "extract_keywords E (strip (request_text req)) = Inr []"
  shows "formulate_search_query E [] = ([], [])
    \<and> snd (analyze_emotion E req key) = []
    \<and> (\<forall>r. fst (analyze_emotion E req key) = Inr r \<longrightarrow> academic_sources r = [])
    \<and> (Some key = api_key E \<and> strip (request_text req) = stripped \<and> stripped \<noteq> []
        \<and> length stripped \<le> 1000 \<and> emotion_classifier E stripped = Inr (ems # rest) \<and> ems \<noteq> []
        \<and> sentiment_analyzer E stripped = Inr (sent # srest)
        \<longrightarrow> (\<exists>r. analyze_emotion E req key = (Inr r, []) \<and> academic_sources r = []))"
proof (intro conjI impI allI)
  show "formulate_search_query E [] = ([], [])"
    using valid_set_iter_Nil [OF assms(1)]
    by (simp add: formulate_search_query_def query_terms_def get_bert_synonyms_def
        dict_fromkeys_def)
next
  have a: "analysis E req (strip (request_text req)) =
      (case bind_exc (emotion_classifier E (strip (request_text req))) py_first of
         Inl e \<Rightarrow> (Inl e, [])
       | Inr emotion_results \<Rightarrow>
           (case bind_exc (sentiment_analyzer E (strip (request_text req))) py_first of
              Inl e \<Rightarrow> (Inl e, [])
            | Inr sentiment_result \<Rightarrow>
                (build_report (sorted_reverse score emotion_results) sentiment_result []
                   (JArr []), [])))"
    using assms(2) by (simp add: analysis_def bind_exc_def split: sum.splits)
  show tr: "snd (analyze_emotion E req key) = []"
    by (simp add: analyze_emotion_def Let_def a split: sum.splits)
  fix r assume r: "fst (analyze_emotion E req key) = Inr r"
  show "academic_sources r = []"
    using r
    by (auto simp: analyze_emotion_def Let_def a build_report_def bind_exc_def py_iter_def
        split: sum.splits if_splits)
next
  assume h: "Some key = api_key E \<and> strip (request_text req) = stripped \<and> stripped \<noteq> []
        \<and> length stripped \<le> 1000 \<and> emotion_classifier E stripped = Inr (ems # rest) \<and> ems \<noteq> []
        \<and> sentiment_analyzer E stripped = Inr (sent # srest)"
  obtain r where r: "build_report (sorted_reverse score ems) sent [] (JArr []) = Inr r"
    "academic_sources r = []"
    using build_report_no_sources [OF sorted_reverse_nonempty] h by blast
  have "analysis E req stripped = (Inr r, [])"
    using h assms(2) r(1) by (simp add: analysis_run [where kws = "[]"])
  then have "analyze_emotion E req key = (Inr r, [])"
    using h by (simp add: analyze_emotion_run)
  then show "\<exists>r. analyze_emotion E req key = (Inr r, []) \<and> academic_sources r = []"
    using r(2) by blast
qed

theorem no_keywords_no_search_witness:
  "valid_set_iter (set_iter (stub_env\<lparr>extract_keywords := \<lambda>t. Inr []\<rparr>))
   \<and> extract_keywords (stub_env\<lparr>extract_keywords := \<lambda>t. Inr []\<rparr>)
        (strip (request_text stub_request)) = Inr []
   \<and> find_sources stub_request = Some True
   \<and> formulate_search_query (stub_env\<lparr>extract_keywords := \<lambda>t. Inr []\<rparr>) [] = ([], [])
   \<and> (\<exists>r. analyze_emotion (stub_env\<lparr>extract_keywords := \<lambda>t. Inr []\<rparr>) stub_request ''secret''
            = (Inr r, [])
          \<and> academic_sources r = [])"
proof -
  let ?E = "stub_env\<lparr>extract_keywords := \<lambda>t. Inr []\<rparr>"
  have v: "valid_set_iter (set_iter ?E)"
    by (simp add: stub_env_def valid_sort_key_length)
  have k: "extract_keywords ?E (strip (request_text stub_request)) = Inr []"
    by simp
  have h: "Some ''secret'' = api_key ?E \<and> strip (request_text stub_request) = ''I feel joy''
        \<and> ''I feel joy'' \<noteq> [] \<and> length ''I feel joy'' \<le> 1000
        \<and> emotion_classifier ?E ''I feel joy'' = Inr (stub_emotions # [])
        \<and> stub_emotions \<noteq> []
        \<and> sentiment_analyzer ?E ''I feel joy''
            = Inr (\<lparr>label = ''POSITIVE'', score = 255 / 256\<rparr> # [])"
    by (simp add: stub_env_def stub_strip stub_emotions_def)
  have "find_sources stub_request = Some True" by (simp add: stub_request_def)
  then show ?thesis
    using v k h no_keywords_no_search [OF v k, where key = "''secret''"
        and stripped = "''I feel joy''" and ems = stub_emotions and rest = "[]"
        and sent = "\<lparr>label = ''POSITIVE'', score = 255 / 256\<rparr>" and srest = "[]"]
    by blast
qed

lemma analyze_emotion_fst:
  "fst (analyze_emotion E req key) =
     (if Some key \<noteq> api_key E then Inl (HTTPException 401 Invalid_API_key)
      else if strip (request_text req) = [] \<or> length (strip (request_text req)) > 1000
      then Inl (HTTPException 400 Invalid_text_input)
      else (case fst (analysis E req (strip (request_text req))) of
              Inl e \<Rightarrow> Inl (HTTPException 500 (Str_of e))
            | Inr r \<Rightarrow> Inr r))"
  by (cases "analysis E req (strip (request_text req))")
    (auto simp: analyze_emotion_def Let_def split: sum.splits)

lemma analysis_fst:
  "fst (analysis E req t) =
     bind_exc (bind_exc (emotion_classifier E t) py_first) (\<lambda>emotion_results.
     bind_exc (bind_exc (sentiment_analyzer E t) py_first) (\<lambda>sentiment_result.
     bind_exc (extract_keywords E t) (\<lambda>kws.
     bind_exc (if find_sources req = Some True \<and> map fst kws \<noteq> []
               then fst (fetch_academic_articles E t (map fst kws)) else Inr (JArr []))
       (build_report (sorted_reverse score emotion_results) sentiment_result (map fst kws)))))"
  by (auto simp: analysis_def bind_exc_def Let_def split: sum.splits prod.splits)

text \<open>
  Claim C10. When the emotion scores are non-empty, the index access to the top-ranked
  emotion and the division by the number of emotions both return a value, and the report
  is built whenever the list of sources can be walked and normalized; so a request with a
  valid key and text whose classifiers and keyphrase extractor answer, and which asks for
  no sources, gets its report. On empty scores the index access raises IndexError, and
  when the classifier returns an empty sequence the endpoint answers with HTTP status 500.
\<close>

theorem report_building_safe_on_nonempty_scores:
  "(emotion_results \<noteq> [] \<longrightarrow>
      (\<exists>t0. py_first (sorted_reverse score emotion_results) = Inr t0)
      \<and> (\<exists>d. diversity (sorted_reverse score emotion_results) = Inr d)
      \<and> (\<forall>entries. bind_exc (py_iter sources) (collect source_entry) = Inr entries \<longrightarrow>
            (\<exists>r. build_report (sorted_reverse score emotion_results) sent keywords sources = Inr r
                  \<and> academic_sources r = entries)))
   \<and> (Some key = api_key E \<and> strip (request_text req) = stripped \<and> stripped \<noteq> []
       \<and> length stripped \<le> 1000
       \<and> emotion_classifier E stripped = Inr (emotion_results # rest) \<and> emotion_results \<noteq> []
       \<and> sentiment_analyzer E stripped = Inr (sent # srest)
       \<and> extract_keywords E stripped = Inr kws \<and> find_sources req \<noteq> Some True
       \<longrightarrow> (\<exists>r. analyze_emotion E req key = (Inr r, [])))
   \<and> build_report (sorted_reverse score []) sent keywords sources = Inl IndexError
   \<and> (Some key = api_key E \<and> strip (request_text req) = stripped \<and> stripped \<noteq> []
       \<and> length stripped \<le> 1000 \<and> emotion_classifier E stripped = Inr ([] # rest)
       \<longrightarrow> (\<exists>e. fst (analyze_emotion E req key) = Inl (HTTPException 500 (Str_of e))))"
proof (intro conjI impI allI)
  assume ne: "emotion_results \<noteq> []"
  show "\<exists>t0. py_first (sorted_reverse score emotion_results) = Inr t0"
    using py_first_highest [OF ne, of score] by blast
  show "\<exists>d. diversity (sorted_reverse score emotion_results) = Inr d"
    using diversity_value [OF ne] by blast
  fix entries
  assume "bind_exc (py_iter sources) (collect source_entry) = Inr entries"
  then show "\<exists>r. build_report (sorted_reverse score emotion_results) sent keywords sources = Inr r
                  \<and> academic_sources r = entries"
    using build_report_ok [OF sorted_reverse_nonempty [OF ne]] by blast
next
  assume h: "Some key = api_key E \<and> strip (request_text req) = stripped \<and> stripped \<noteq> []
       \<and> length stripped \<le> 1000
       \<and> emotion_classifier E stripped = Inr (emotion_results # rest) \<and> emotion_results \<noteq> []
       \<and> sentiment_analyzer E stripped = Inr (sent # srest)
       \<and> extract_keywords E stripped = Inr kws \<and> find_sources req \<noteq> Some True"
  obtain r where r: "build_report (sorted_reverse score emotion_results) sent (map fst kws) (JArr []) = Inr r"
    using build_report_no_sources [OF sorted_reverse_nonempty] h by blast
  have "analysis E req stripped = (Inr r, [])"
    using h r by (simp add: analysis_run)
  then show "\<exists>r. analyze_emotion E req key = (Inr r, [])"
    using h by (simp add: analyze_emotion_run)
next
  show "build_report (sorted_reverse score []) sent keywords sources = Inl IndexError"
    by (simp add: sorted_reverse_def build_report_empty)
next
  assume h: "Some key = api_key E \<and> strip (request_text req) = stripped \<and> stripped \<noteq> []
       \<and> length stripped \<le> 1000 \<and> emotion_classifier E stripped = Inr ([] # rest)"
  obtain e where "fst (analysis E req stripped) = Inl e"
    using analysis_empty_scores h by blast
  then show "\<exists>e. fst (analyze_emotion E req key) = Inl (HTTPException 500 (Str_of e))"
    using h by (auto simp: analyze_emotion_fst)
qed

theorem report_building_safe_on_nonempty_scores_witness:
  "stub_emotions \<noteq> []
   \<and> (\<exists>t0. py_first (sorted_reverse score stub_emotions) = Inr t0)
   \<and> (\<exists>d. diversity (sorted_reverse score stub_emotions) = Inr d)
   \<and> (\<exists>r. analyze_emotion stub_env (stub_request\<lparr>find_sources := Some False\<rparr>) ''secret''
            = (Inr r, []))
   \<and> (\<exists>e. fst (analyze_emotion (stub_env\<lparr>emotion_classifier := \<lambda>t. Inr [[]]\<rparr>)
                 stub_request ''secret'') = Inl (HTTPException 500 (Str_of e)))"
proof -
  let ?E = "stub_env\<lparr>emotion_classifier := \<lambda>t. Inr [[]]\<rparr>"
  let ?req = "stub_request\<lparr>find_sources := Some False\<rparr>"
  have ne: "stub_emotions \<noteq> []" by (simp add: stub_emotions_def)
  have st: "strip (request_text ?req) = ''I feel joy''"
    using stub_strip by (simp add: stub_request_def)
  have h1: "Some ''secret'' = api_key stub_env \<and> strip (request_text ?req) = ''I feel joy''
       \<and> ''I feel joy'' \<noteq> [] \<and> length ''I feel joy'' \<le> 1000
       \<and> emotion_classifier stub_env ''I feel joy'' = Inr (stub_emotions # [])
       \<and> stub_emotions \<noteq> []
       \<and> sentiment_analyzer stub_env ''I feel joy''
            = Inr (\<lparr>label = ''POSITIVE'', score = 255 / 256\<rparr> # [])
       \<and> extract_keywords stub_env ''I feel joy'' = Inr [(''joy'', 3 / 4), (''sad'', 1 / 2)]
       \<and> find_sources ?req \<noteq> Some True"
    using ne st by (simp add: stub_env_def)
  have h2: "Some ''secret'' = api_key ?E \<and> strip (request_text stub_request) = ''I feel joy''
       \<and> ''I feel joy'' \<noteq> [] \<and> length ''I feel joy'' \<le> 1000
       \<and> emotion_classifier ?E ''I feel joy'' = Inr ([] # [])"
    using stub_strip by (simp add: stub_env_def)
  have a: "(\<exists>t0. py_first (sorted_reverse score stub_emotions) = Inr t0)
      \<and> (\<exists>d. diversity (sorted_reverse score stub_emotions) = Inr d)"
    using ne report_building_safe_on_nonempty_scores [where emotion_results = stub_emotions]
    by blast
  have b: "\<exists>r. analyze_emotion stub_env ?req ''secret'' = (Inr r, [])"
    using h1 report_building_safe_on_nonempty_scores [where emotion_results = stub_emotions
        and key = "''secret''" and E = stub_env and req = ?req and stripped = "''I feel joy''"
        and rest = "[]" and sent = "\<lparr>label = ''POSITIVE'', score = 255 / 256\<rparr>"
        and srest = "[]" and kws = "[(''joy'', 3 / 4), (''sad'', 1 / 2)]"]
    by blast
  have c: "\<exists>e. fst (analyze_emotion ?E stub_request ''secret'') = Inl (HTTPException 500 (Str_of e))"
    using h2 report_building_safe_on_nonempty_scores [where key = "''secret''" and E = ?E
        and req = stub_request and stripped = "''I feel joy''" and rest = "[]"]
    by blast
  show ?thesis using ne a b c by blast
qed

subsection \<open>Determinism and the order of the synonyms\<close>

lemma fetch_fst_constant:
  assumes "\<forall>u p. http_get E u p = out" and "\<forall>u p. http_get E' u p = out"
  shows "fst (fetch_academic_articles E' t ks) = fst (fetch_academic_articles E t ks)"
  by (simp add: fetch_fst search_fst_constant [OF assms])

text \<open>
  Claim C4, amended. Two runs on the same request and key whose classifiers, keyphrase
  extractor and search endpoint give the same responses yield the same result, report or
  error, whatever the dictionary, the encoder and the set iteration do. The synonyms of
  the query are the accepted synonyms, each once, in the order in which the set of
  synonyms is iterated: the query's terms are the primary terms followed by that
  iteration of the first-encountered synonyms, repetitions removed.
\<close>

theorem report_deterministic_synonyms_in_set_order:
  assumes "valid_set_iter (set_iter E)"
  shows "(api_key E' = api_key E \<and> emotion_classifier E' = emotion_classifier E
          \<and> sentiment_analyzer E' = sentiment_analyzer E
          \<and> extract_keywords E' = extract_keywords E
          \<and> (\<forall>u p. http_get E u p = out) \<and> (\<forall>u p. http_get E' u p = out)
          \<longrightarrow> fst (analyze_emotion E' req key) = fst (analyze_emotion E req key))
    \<and> fst (get_bert_synonyms E ks) = set_iter E (first_encountered E ks)
    \<and> distinct (fst (get_bert_synonyms E ks))
    \<and> set (fst (get_bert_synonyms E ks)) = set (first_encountered E ks)
    \<and> query_terms E ks =
        keep_first (take 3 ks @ set_iter E (first_encountered E (take 3 ks)))"
proof (intro conjI impI)
  assume h: "api_key E' = api_key E \<and> emotion_classifier E' = emotion_classifier E
          \<and> sentiment_analyzer E' = sentiment_analyzer E
          \<and> extract_keywords E' = extract_keywords E
          \<and> (\<forall>u p. http_get E u p = out) \<and> (\<forall>u p. http_get E' u p = out)"
  then have f: "\<And>t ks. fst (fetch_academic_articles E' t ks) = fst (fetch_academic_articles E t ks)"
    using fetch_fst_constant by blast
  have "\<And>t. fst (analysis E' req t) = fst (analysis E req t)"
    using h by (simp add: analysis_fst f cong: if_cong)
  then show "fst (analyze_emotion E' req key) = fst (analyze_emotion E req key)"
    using h by (simp add: analyze_emotion_fst)
next
  show "fst (get_bert_synonyms E ks) = set_iter E (first_encountered E ks)"
    by (rule get_bert_synonyms_fst)
  show "distinct (fst (get_bert_synonyms E ks))"
    using valid_set_iter_distinct [OF assms distinct_first_encountered]
    by (simp add: get_bert_synonyms_fst)
  show "set (fst (get_bert_synonyms E ks)) = set (first_encountered E ks)"
    using valid_set_iter_set [OF assms distinct_first_encountered]
    by (simp add: get_bert_synonyms_fst)
  show "query_terms E ks =
        keep_first (take 3 ks @ set_iter E (first_encountered E (take 3 ks)))"
    by (simp add: query_terms_def dict_fromkeys_keep_first get_bert_synonyms_fst Let_def)
qed

theorem report_deterministic_synonyms_in_set_order_witness:
  "valid_set_iter (set_iter stub_env)
   \<and> fst (analyze_emotion (stub_env\<lparr>set_iter := \<lambda>xs. xs\<rparr>) stub_request ''secret'')
       = fst (analyze_emotion stub_env stub_request ''secret'')
   \<and> fst (get_bert_synonyms stub_env [''joy'', ''sad''])
       = set_iter stub_env (first_encountered stub_env [''joy'', ''sad''])
   \<and> distinct (fst (get_bert_synonyms stub_env [''joy'', ''sad'']))"
proof -
  let ?E' = "stub_env\<lparr>set_iter := \<lambda>xs. xs\<rparr>"
  let ?out = "Response 200 (Json (JObj [(''data'', JArr [stub_paper])]))"
  have v: "valid_set_iter (set_iter stub_env)"
    by (simp add: stub_env_def valid_sort_key_length)
  have h: "api_key ?E' = api_key stub_env \<and> emotion_classifier ?E' = emotion_classifier stub_env
          \<and> sentiment_analyzer ?E' = sentiment_analyzer stub_env
          \<and> extract_keywords ?E' = extract_keywords stub_env
          \<and> (\<forall>u p. http_get stub_env u p = ?out) \<and> (\<forall>u p. http_get ?E' u p = ?out)"
    by (simp add: stub_env_def)
  show ?thesis
    using v h report_deterministic_synonyms_in_set_order [OF v, where E' = ?E' and out = ?out
        and req = stub_request and key = "''secret''" and ks = "[''joy'', ''sad'']"]
    by blast
qed

text \<open>
  The claim as stated fails on the order: the loop meets \<open>joy\<close>, \<open>delight\<close>, \<open>sad\<close>,
  \<open>sorry\<close> in this order, and with a set that walks \<open>sorry\<close> before \<open>delight\<close>, as the
  hash values of a run can have it, the query ends \<open>sorry delight\<close>. With a set that walks
  in insertion order the same collaborators give another query.
\<close>

theorem synonym_order_counterexample:
  "valid_set_iter (set_iter stub_env)
   \<and> first_encountered stub_env [''joy'', ''sad''] = [''joy'', ''delight'', ''sad'', ''sorry'']
   \<and> fst (get_bert_synonyms stub_env [''joy'', ''sad'']) = [''joy'', ''sad'', ''sorry'', ''delight'']
   \<and> fst (formulate_search_query stub_env [''joy'', ''sad'']) = ''joy sad sorry delight''
   \<and> fst (formulate_search_query (stub_env\<lparr>set_iter := \<lambda>xs. xs\<rparr>) [''joy'', ''sad''])
       = ''joy sad delight sorry''"
proof -
  have v: "valid_set_iter (set_iter stub_env)"
    by (simp add: stub_env_def valid_sort_key_length)
  have "first_encountered stub_env [''joy'', ''sad''] = [''joy'', ''delight'', ''sad'', ''sorry'']"
    by code_simp
  moreover have "fst (get_bert_synonyms stub_env [''joy'', ''sad'']) = [''joy'', ''sad'', ''sorry'', ''delight'']"
    by code_simp
  moreover have "fst (formulate_search_query stub_env [''joy'', ''sad'']) = ''joy sad sorry delight''"
    by code_simp
  moreover have "fst (formulate_search_query (stub_env\<lparr>set_iter := \<lambda>xs. xs\<rparr>) [''joy'', ''sad''])
       = ''joy sad delight sorry''"
    by code_simp
  ultimately show ?thesis using v by simp
qed

subsection \<open>Ranking, intensity and complexity in the report\<close>

lemma intensity_buckets:
  "(get_emotional_intensity x = ''very high'' \<longleftrightarrow> fl (9 / 10) \<le> x)
   \<and> (get_emotional_intensity x = ''high'' \<longleftrightarrow> fl (7 / 10) \<le> x \<and> x < fl (9 / 10))
   \<and> (get_emotional_intensity x = ''moderate'' \<longleftrightarrow> fl (5 / 10) \<le> x \<and> x < fl (7 / 10))
   \<and> (get_emotional_intensity x = ''low'' \<longleftrightarrow> x < fl (5 / 10))"
proof -
  have "fl (5 / 10) < fl (7 / 10)" and "fl (7 / 10) < fl (9 / 10)"
    unfolding float_literals by simp_all
  then show ?thesis
    unfolding get_emotional_intensity_def by auto
qed

lemma analyze_emotion_report:
  assumes "Some key = api_key E" and "strip (request_text req) = stripped"
    and "stripped \<noteq> []" and "length stripped \<le> 1000"
    and "emotion_classifier E stripped = Inr (emotion_results # rest)"
    and "emotion_results \<noteq> []"
    and "sentiment_analyzer E stripped = Inr (sent # srest)"
    and "extract_keywords E stripped = Inr kws"
    and "bind_exc (if find_sources req = Some True \<and> kws \<noteq> []
                   then fst (fetch_academic_articles E stripped (map fst kws))
                   else Inr (JArr []))
           (\<lambda>src. bind_exc (py_iter src) (collect source_entry)) = Inr entries"
  shows "\<exists>r t0 others. fst (analyze_emotion E req key) = Inr r
      \<and> sorted_reverse score emotion_results = t0 # others
      \<and> primary_emotion r =
           \<lparr>label = label t0, score = py_round (score t0) 3,
            intensity = get_emotional_intensity (score t0)\<rparr>
      \<and> secondary_emotions r = map rounded others
      \<and> is_mixed (emotional_complexity r) = mixed (t0 # others)
      \<and> diversity (t0 # others) = Inr (diversity_score (emotional_complexity r))
      \<and> academic_sources r = entries"
proof -
  let ?s = "sorted_reverse score emotion_results"
  let ?fetched = "if find_sources req = Some True \<and> kws \<noteq> []
                   then fst (fetch_academic_articles E stripped (map fst kws))
                   else Inr (JArr [])"
  obtain t0 others where s: "?s = t0 # others"
    using sorted_reverse_nonempty [OF assms(6), of score] by (cases ?s) auto
  obtain src where src: "?fetched = Inr src"
    "bind_exc (py_iter src) (collect source_entry) = Inr entries"
    using assms(9) by (cases ?fetched) (auto simp: bind_exc_def)
  obtain papers where p: "py_iter src = Inr papers" "collect source_entry papers = Inr entries"
    using src(2) by (cases "py_iter src") (auto simp: bind_exc_def)
  obtain d where d: "diversity (t0 # others) = Inr d"
    using diversity_value [OF assms(6)] s by simp
  define r where "r = \<lparr>sentiment = rounded sent,
            primary_emotion =
              \<lparr>label = label t0, score = py_round (score t0) 3,
               intensity = get_emotional_intensity (score t0)\<rparr>,
            secondary_emotions = map rounded others,
            emotional_complexity =
              \<lparr>is_mixed = mixed (t0 # others), diversity_score = d\<rparr>,
            keyword_insights =
              \<lparr>key_phrases = map fst kws,
               emotional_triggers = triggers (map fst kws) (t0 # others)\<rparr>,
            academic_sources = entries,
            full_breakdown =
              fold (\<lambda>e d. dict_set (label e) (py_round (score e) 3) d) (t0 # others) []\<rparr>"
  have b: "build_report (t0 # others) sent (map fst kws) src = Inr r"
    using p d by (simp add: build_report_def bind_exc_def py_first_def r_def)
  have "fst (analysis E req stripped) = bind_exc ?fetched (build_report ?s sent (map fst kws))"
    using assms(5,7,8) by (simp add: analysis_fst bind_exc_def py_first_def)
  then have "fst (analysis E req stripped) = Inr r"
    using src(1) b s by (simp add: bind_exc_def)
  then have "fst (analyze_emotion E req key) = Inr r"
    using assms(1-4) by (simp add: analyze_emotion_fst)
  then show ?thesis using s d by (auto simp: r_def)
qed


text \<open>
  Claim C5. Take a request that is answered: its key and text are valid, the classifiers
  and the keyphrase extractor return, the emotion scores being non-empty, and the sources
  can be normalized. Then the endpoint returns a report, and the report ranks the
  emotions by the stable descending sort of the classifier's sequence: there is a
  sequence, \<open>t0\<close> followed by \<open>others\<close>, that is descending by score, is a
  rearrangement of the classifier's sequence and keeps the entries of any one score in the
  classifier's order; \<open>t0\<close> has the highest score; \<open>primary_emotion\<close> carries the label
  and the rounded score of \<open>t0\<close>, and \<open>secondary_emotions\<close> are the others, rounded, in
  this order. The intensity of \<open>primary_emotion\<close> is "very high" iff the score of \<open>t0\<close>
  is at least 0.9, "high" iff it is at least 0.7 and below 0.9, "moderate" iff it is at
  least 0.5 and below 0.7, and "low" iff it is below 0.5: every score has exactly one
  bucket. The thresholds are the floats the literals denote, and the score compared is
  the one before rounding.
\<close>

theorem emotions_sorted_and_bucketed:
  assumes "Some key = api_key E" and "strip (request_text req) = stripped"
    and "stripped \<noteq> []" and "length stripped \<le> 1000"
    and "emotion_classifier E stripped = Inr (emotion_results # rest)"
    and "emotion_results \<noteq> []"
    and "sentiment_analyzer E stripped = Inr (sent # srest)"
    and "extract_keywords E stripped = Inr kws"
    and "bind_exc (if find_sources req = Some True \<and> kws \<noteq> []
                   then fst (fetch_academic_articles E stripped (map fst kws))
                   else Inr (JArr []))
           (\<lambda>src. bind_exc (py_iter src) (collect source_entry)) = Inr entries"
  shows "\<exists>r t0 others. fst (analyze_emotion E req key) = Inr r
      \<and> sorted_wrt (\<lambda>a b. score b \<le> score a) (t0 # others)
      \<and> mset (t0 # others) = mset emotion_results
      \<and> (\<forall>k. filter (\<lambda>e. score e = k) (t0 # others) =
               filter (\<lambda>e. score e = k) emotion_results)
      \<and> (\<forall>e \<in> set emotion_results. score e \<le> score t0)
      \<and> label (primary_emotion r) = label t0
      \<and> score (primary_emotion r) = py_round (score t0) 3
      \<and> secondary_emotions r = map rounded others
      \<and> (intensity (primary_emotion r) = ''very high'' \<longleftrightarrow> fl (9 / 10) \<le> score t0)
      \<and> (intensity (primary_emotion r) = ''high'' \<longleftrightarrow>
            fl (7 / 10) \<le> score t0 \<and> score t0 < fl (9 / 10))
      \<and> (intensity (primary_emotion r) = ''moderate'' \<longleftrightarrow>
            fl (5 / 10) \<le> score t0 \<and> score t0 < fl (7 / 10))
      \<and> (intensity (primary_emotion r) = ''low'' \<longleftrightarrow> score t0 < fl (5 / 10))"
proof -
  obtain r t0 others where r: "fst (analyze_emotion E req key) = Inr r"
    and s: "sorted_reverse score emotion_results = t0 # others"
    and p: "primary_emotion r =
           \<lparr>label = label t0, score = py_round (score t0) 3,
            intensity = get_emotional_intensity (score t0)\<rparr>"
    and o: "secondary_emotions r = map rounded others"
    using analyze_emotion_report [OF assms] by blast
  have 1: "sorted_wrt (\<lambda>a b. score b \<le> score a) (t0 # others)"
    using sorted_sorted_reverse [of score emotion_results] s by simp
  have 2: "mset (t0 # others) = mset emotion_results"
    using mset_sorted_reverse [of score emotion_results] s by simp
  have 3: "\<forall>k. filter (\<lambda>e. score e = k) (t0 # others) =
               filter (\<lambda>e. score e = k) emotion_results"
    using stable_sorted_reverse [of score _ emotion_results] s by simp
  have "set (t0 # others) = set emotion_results"
    using set_sorted_reverse [of score emotion_results] s by simp
  then have 4: "\<forall>e \<in> set emotion_results. score e \<le> score t0"
    using 1 by auto
  have 5: "label (primary_emotion r) = label t0"
    "score (primary_emotion r) = py_round (score t0) 3"
    "intensity (primary_emotion r) = get_emotional_intensity (score t0)"
    using p by simp_all
  show ?thesis
    using r 1 2 3 4 5(1,2) o intensity_buckets [of "score t0"]
    unfolding 5(3) [symmetric] by blast
qed

lemma stub_sources:
  "bind_exc (if find_sources stub_request = Some True \<and> [(''joy'', 3 / 4), (''sad'', 1 / 2 :: rat)] \<noteq> []
             then fst (fetch_academic_articles stub_env ''I feel joy''
                         (map fst [(''joy'', 3 / 4), (''sad'', 1 / 2 :: rat)]))
             else Inr (JArr []))
     (\<lambda>src. bind_exc (py_iter src) (collect source_entry))
   = Inr [\<lparr>title = JStr ''On joy'', authors = [], year = JInt 2020, url = JStr ''#'',
           citationCount = JInt 0, similarity = 0\<rparr>]"
  by code_simp

lemma stub_scores:
  "fl (40 / 100) = 3602879701896397 / 2 ^ 53"
  "fl (95 / 100) = 4278419646001971 / 2 ^ 52"
  "fl (10 / 100) = 3602879701896397 / 2 ^ 55"
  "fl (55 / 100) = 2476979795053773 / 2 ^ 52"
  "fl (45 / 100) = 8106479329266893 / 2 ^ 54"
  by code_simp+

lemma stub_emotions_sorted:
  "sorted_reverse score stub_emotions =
     [\<lparr>label = ''joy'', score = fl (95 / 100)\<rparr>, \<lparr>label = ''sadness'', score = fl (40 / 100)\<rparr>,
      \<lparr>label = ''fear'', score = fl (40 / 100)\<rparr>, \<lparr>label = ''anger'', score = fl (10 / 100)\<rparr>]"
  unfolding stub_emotions_def stub_scores by (simp add: sorted_reverse_def)


lemma stub_answers:
  "Some ''secret'' = api_key stub_env"
  "''I feel joy'' \<noteq> []"
  "length ''I feel joy'' \<le> 1000"
  "emotion_classifier stub_env ''I feel joy'' = Inr (stub_emotions # [])"
  "stub_emotions \<noteq> []"
  "sentiment_analyzer stub_env ''I feel joy'' = Inr (\<lparr>label = ''POSITIVE'', score = 255 / 256\<rparr> # [])"
  "extract_keywords stub_env ''I feel joy'' = Inr [(''joy'', 3 / 4), (''sad'', 1 / 2)]"
  by (simp_all add: stub_env_def stub_emotions_def)

theorem emotions_sorted_and_bucketed_witness:
  "Some ''secret'' = api_key stub_env
   \<and> strip (request_text stub_request) = ''I feel joy''
   \<and> emotion_classifier stub_env ''I feel joy'' = Inr (stub_emotions # [])
   \<and> stub_emotions \<noteq> []
   \<and> map label stub_emotions = [''sadness'', ''joy'', ''fear'', ''anger'']
   \<and> (\<exists>r t0 others. fst (analyze_emotion stub_env stub_request ''secret'') = Inr r
         \<and> sorted_wrt (\<lambda>a b. score b \<le> score a) (t0 # others)
         \<and> mset (t0 # others) = mset stub_emotions
         \<and> label (primary_emotion r) = label t0
         \<and> label (primary_emotion r) = ''joy''
         \<and> intensity (primary_emotion r) = ''very high''
         \<and> map label (secondary_emotions r) = [''sadness'', ''fear'', ''anger''])"
proof -
  note h = stub_answers(1) stub_strip stub_answers(2-7) stub_sources
  obtain r t0 others where r: "fst (analyze_emotion stub_env stub_request ''secret'') = Inr r"
    "sorted_wrt (\<lambda>a b. score b \<le> score a) (t0 # others)"
    "mset (t0 # others) = mset stub_emotions"
    "label (primary_emotion r) = label t0"
    using emotions_sorted_and_bucketed [OF h] by blast
  obtain r' t0' others' where r': "fst (analyze_emotion stub_env stub_request ''secret'') = Inr r'"
    "sorted_reverse score stub_emotions = t0' # others'"
    "primary_emotion r' =
       \<lparr>label = label t0', score = py_round (score t0') 3,
        intensity = get_emotional_intensity (score t0')\<rparr>"
    "secondary_emotions r' = map rounded others'"
    using analyze_emotion_report [OF h] by blast
  have eq: "r' = r" using r(1) r'(1) by simp
  have t: "t0' = \<lparr>label = ''joy'', score = fl (95 / 100)\<rparr>"
    and o: "others' = [\<lparr>label = ''sadness'', score = fl (40 / 100)\<rparr>,
      \<lparr>label = ''fear'', score = fl (40 / 100)\<rparr>, \<lparr>label = ''anger'', score = fl (10 / 100)\<rparr>]"
    using r'(2) unfolding stub_emotions_sorted by simp_all
  have i: "get_emotional_intensity (fl (95 / 100)) = ''very high''"
    unfolding get_emotional_intensity_def float_literals stub_scores by simp
  have v: "label (primary_emotion r) = ''joy''" "intensity (primary_emotion r) = ''very high''"
    using r'(3) i unfolding eq t by simp_all
  have w: "map label (secondary_emotions r) = [''sadness'', ''fear'', ''anger'']"
    using r'(4) unfolding eq o by (simp add: rounded_def)
  have l: "map label stub_emotions = [''sadness'', ''joy'', ''fear'', ''anger'']"
    by (simp add: stub_emotions_def)
  show ?thesis
    by (intro conjI exI [of _ r] exI [of _ t0] exI [of _ others])
      (rule stub_answers stub_strip l r v w)+
qed










end
